theory Spec2Isabelle
  imports Main "HOL-Library.Word" "HOL-Library.Monad_Syntax"
begin

section \<open>Values, errors and library functions\<close>

text \<open>
  The package \<^verbatim>\<open>fsql\<close> builds SQL text from struct tags. Go strings are byte
  sequences, so they are \<open>string\<close> here (a list of 8-bit characters, UTF-8 where the
  text is not ASCII). A Go \<^verbatim>\<open>panic\<close> and an \<^verbatim>\<open>error\<close> made by
  \<^verbatim>\<open>fmt.Errorf\<close> are the two constructors of \<open>error\<close>; a function that can
  panic or return an error has a result of type \<open>error + 'a\<close>.
\<close>

datatype error = Panic string | Errorf string

fun fatal :: "error + 'a \<Rightarrow> bool" where
  "fatal (Inl (Panic msg)) = True"
| "fatal (Inl (Errorf msg)) = False"
| "fatal (Inr v) = False"

text \<open>
  The values that travel through \<^verbatim>\<open>interface{}\<close> slots (filter values, insert and
  update values, bound arguments) as a closed type. \<open>PqArray v\<close> is \<^verbatim>\<open>pq.Array(v)\<close>,
  the wrapper that binds a whole slice as one array argument.
\<close>

datatype val = VStr string | VInt int | VBool bool | VNil | VSlice "val list" | PqArray val

text \<open>\<^verbatim>\<open>strings.Split(s, sep)\<close> for a separator of one byte, as both calls of the package use it.\<close>

fun Split :: "string \<Rightarrow> char \<Rightarrow> string list" where
  "Split [] sep = [[]]"
| "Split (c # cs) sep =
     (if c = sep then [] # Split cs sep
      else (case Split cs sep of [] \<Rightarrow> [[c]] | p # ps \<Rightarrow> (c # p) # ps))"

text \<open>\<^verbatim>\<open>strings.Join(elems, sep)\<close>.\<close>

fun Join :: "string list \<Rightarrow> string \<Rightarrow> string" where
  "Join [] sep = []"
| "Join [x] sep = x"
| "Join (x # y # ys) sep = x @ sep @ Join (y # ys) sep"

text \<open>\<^verbatim>\<open>strings.HasPrefix\<close>, \<^verbatim>\<open>strings.TrimSuffix\<close> and \<^verbatim>\<open>strings.ReplaceAll(s, c, "")\<close>.\<close>

definition HasPrefix :: "string \<Rightarrow> string \<Rightarrow> bool" where
  "HasPrefix s p = (take (length p) s = p)"

definition TrimSuffix :: "string \<Rightarrow> string \<Rightarrow> string" where
  "TrimSuffix s suf =
     (if length suf \<le> length s \<and> drop (length s - length suf) s = suf
      then take (length s - length suf) s else s)"

definition RemoveAll :: "string \<Rightarrow> char \<Rightarrow> string" where
  "RemoveAll s c = filter (\<lambda>x. x \<noteq> c) s"

text \<open>
  The decimal text of an integer, as the verb \<^verbatim>\<open>%d\<close> prints it.
\<close>

fun digits :: "nat \<Rightarrow> string" where
  "digits n =
     (if n < 10 then [''0123456789'' ! n]
      else digits (n div 10) @ [''0123456789'' ! (n mod 10)])"

declare digits.simps [simp del]

definition itoa :: "int \<Rightarrow> string" where
  "itoa i = (if i < 0 then CHR ''-'' # digits (nat (- i)) else digits (nat i))"

text \<open>
  \<^verbatim>\<open>fmt.Sprintf(format, n)\<close> with one integer operand, where \<open>format\<close> is computed
  at run time (the condition text of the filter compiler). The scanner of package
  \<^verbatim>\<open>fmt\<close> copies the text up to a \<^verbatim>\<open>%\<close>; \<^verbatim>\<open>%%\<close> prints a percent sign;
  \<^verbatim>\<open>%d\<close> and \<^verbatim>\<open>%v\<close> print the operand in decimal if it has not been used yet,
  and \<^verbatim>\<open>%!d(MISSING)\<close> or \<^verbatim>\<open>%!v(MISSING)\<close> otherwise; a \<^verbatim>\<open>%\<close> that ends the
  format prints \<^verbatim>\<open>%!(NOVERB)\<close>; an operand that no verb used is reported at the end
  as \<^verbatim>\<open>%!(EXTRA int=n)\<close>. The second argument is the operand while it is unused.
  Flags, widths and the other verbs are outside this model: such a directive is copied
  as it stands, which is not what \<^verbatim>\<open>fmt\<close> prints for it, and nothing below depends
  on what is printed for it.
\<close>

fun doPrintf :: "string \<Rightarrow> int option \<Rightarrow> string" where
  "doPrintf [] None = []"
| "doPrintf [] (Some n) = ''%!(EXTRA int='' @ itoa n @ '')''"
| "doPrintf [c] a =
     (if c = CHR ''%'' then ''%!(NOVERB)'' @ doPrintf [] a else c # doPrintf [] a)"
| "doPrintf (c # d # r) a =
     (if c \<noteq> CHR ''%'' then c # doPrintf (d # r) a
      else if d = CHR ''%'' then CHR ''%'' # doPrintf r a
      else if d = CHR ''d'' \<or> d = CHR ''v'' then
        (case a of Some n \<Rightarrow> itoa n @ doPrintf r None
                 | None \<Rightarrow> ''%!'' @ [d] @ ''(MISSING)'' @ doPrintf r None)
      else c # doPrintf (d # r) a)"

definition Sprintf :: "string \<Rightarrow> int \<Rightarrow> string" where
  "Sprintf format n = doPrintf format (Some n)"

section \<open>cache.go: the metadata cache\<close>

text \<open>
  A struct field as \<^verbatim>\<open>InitModelTagCache\<close> sees it through reflection: its name and
  the values of the tags \<^verbatim>\<open>db\<close>, \<^verbatim>\<open>dbMode\<close> and \<^verbatim>\<open>dbInsertValue\<close>
  (\<^verbatim>\<open>Tag.Get\<close> gives the empty string for a tag that is absent).
\<close>

record field =
  Name :: string
  db :: string
  dbMode :: string
  dbInsertValue :: string

text \<open>
  The model argument is an \<^verbatim>\<open>interface{}\<close>, and \<^verbatim>\<open>reflect.TypeOf\<close> gives its
  dynamic type: a struct type, a pointer type, or a type of another kind (named by
  \<^verbatim>\<open>Kind().String()\<close>); for a nil interface there is no type, which is \<open>None\<close>.
\<close>

datatype rtype = Struct "field list" | Ptr rtype | Other string

type_synonym model = "rtype option"

record modelInfo =
  dbTagMap :: "string \<rightharpoonup> string"
  dbInsertValueMap :: "string \<rightharpoonup> string"
  dbFieldsSelect :: "string list"
  dbFieldsInsert :: "string list"
  dbFieldsUpdate :: "string list"
  dbFieldsSelectMap :: "string set"
  dbFieldsInsertMap :: "string set"
  dbFieldsUpdateMap :: "string set"
  linkedFields :: "string \<rightharpoonup> string"

text \<open>\<^verbatim>\<open>modelFieldsCache\<close>, the process-wide map from table name to metadata.\<close>

type_synonym cache = "string \<rightharpoonup> modelInfo"

definition getModelInfo :: "cache \<Rightarrow> string \<Rightarrow> modelInfo option" where
  "getModelInfo c tableName = c tableName"

text \<open>
  \<^verbatim>\<open>getModelType\<close>: the loop that follows the pointers, with the test of the kind
  after it, and the call on the type of the model. A method call on the missing type of a
  nil interface is a run-time panic.
\<close>

fun elemStruct :: "rtype \<Rightarrow> error + field list" where
  "elemStruct (Ptr ty) = elemStruct ty"
| "elemStruct (Struct fs) = Inr fs"
| "elemStruct (Other kind) = Inl (Panic (''expected a struct, got '' @ kind))"

definition getModelType :: "model \<Rightarrow> error + field list" where
  "getModelType m =
     (case m of
        None \<Rightarrow> Inl (Panic ''runtime error: invalid memory address or nil pointer dereference'')
      | Some ty \<Rightarrow> elemStruct ty)"

definition emptyInfo :: modelInfo where
  "emptyInfo = \<lparr> dbTagMap = Map.empty, dbInsertValueMap = Map.empty,
     dbFieldsSelect = [], dbFieldsInsert = [], dbFieldsUpdate = [],
     dbFieldsSelectMap = {}, dbFieldsInsertMap = {}, dbFieldsUpdateMap = {},
     linkedFields = Map.empty \<rparr>"

text \<open>The set of keys of \<^verbatim>\<open>modeFlags\<close>: the comma-separated parts of the mode tag.\<close>

definition modeFlags :: "field \<Rightarrow> string set" where
  "modeFlags f = set (Split (dbMode f) (CHR '',''))"

text \<open>One round of the loop over the fields of the struct.\<close>

definition initField :: "field \<Rightarrow> modelInfo \<Rightarrow> modelInfo" where
  "initField f mi =
     (let dbTagValue = db f in
      if dbTagValue = [] \<or> dbTagValue = ''-'' then mi
      else if ''l'' \<in> modeFlags f \<or> ''link'' \<in> modeFlags f
      then mi\<lparr>linkedFields := (linkedFields mi)(Name f \<mapsto> dbTagValue)\<rparr>
      else
        let mi1 = mi\<lparr>dbTagMap := (dbTagMap mi)(Name f \<mapsto> dbTagValue)\<rparr> in
        if ''s'' \<in> modeFlags f then mi1
        else
          let mi2 =
                (if ''i'' \<in> modeFlags f
                 then mi1\<lparr>dbFieldsInsert := dbFieldsInsert mi1 @ [dbTagValue],
                          dbFieldsInsertMap := insert dbTagValue (dbFieldsInsertMap mi1),
                          dbInsertValueMap :=
                            (if dbInsertValue f \<noteq> []
                             then (dbInsertValueMap mi1)(dbTagValue \<mapsto> dbInsertValue f)
                             else dbInsertValueMap mi1)\<rparr>
                 else mi1);
              mi3 =
                (if ''u'' \<in> modeFlags f
                 then mi2\<lparr>dbFieldsUpdate := dbFieldsUpdate mi2 @ [dbTagValue],
                          dbFieldsUpdateMap := insert dbTagValue (dbFieldsUpdateMap mi2)\<rparr>
                 else mi2)
          in mi3\<lparr>dbFieldsSelect := dbFieldsSelect mi3 @ [dbTagValue],
                 dbFieldsSelectMap := insert dbTagValue (dbFieldsSelectMap mi3)\<rparr>)"

fun initFields :: "field list \<Rightarrow> modelInfo \<Rightarrow> modelInfo" where
  "initFields [] mi = mi"
| "initFields (f # fs) mi = initFields fs (initField f mi)"

text \<open>The conditions of the loop body, by name.\<close>

definition tagged :: "field \<Rightarrow> bool" where
  "tagged f = (db f \<noteq> [] \<and> db f \<noteq> ''-'')"

definition linked :: "field \<Rightarrow> bool" where
  "linked f = (''l'' \<in> modeFlags f \<or> ''link'' \<in> modeFlags f)"

definition skipped :: "field \<Rightarrow> bool" where
  "skipped f = (''s'' \<in> modeFlags f)"

definition listed :: "field \<Rightarrow> bool" where
  "listed f = (tagged f \<and> \<not> linked f \<and> \<not> skipped f)"

definition InitModelTagCache :: "model \<Rightarrow> string \<Rightarrow> cache \<Rightarrow> error + cache" where
  "InitModelTagCache m tableName c =
     (case getModelInfo c tableName of
        Some info \<Rightarrow> Inr c
      | None \<Rightarrow>
          (case getModelType m of
             Inl e \<Rightarrow> Inl e
           | Inr fs \<Rightarrow> Inr (c(tableName \<mapsto> initFields fs emptyInfo))))"

text \<open>
  \<^verbatim>\<open>getFieldsByMode\<close>: the quoted column references and the raw column names of one
  of the three lists. The loop strips the double quotes from \<^verbatim>\<open>aliasTableName\<close> in
  place, so the test for an empty alias in the next round sees the stripped alias.
\<close>

fun renderFields :: "string \<Rightarrow> string \<Rightarrow> string list \<Rightarrow> string list" where
  "renderFields tableName aliasTableName [] = []"
| "renderFields tableName aliasTableName (fieldName # rest) =
     (let quotedTableName = ''\"'' @ RemoveAll tableName (CHR 0x22) @ ''\"'';
          quotedFieldName = ''\"'' @ RemoveAll fieldName (CHR 0x22) @ ''\"''
      in if aliasTableName \<noteq> []
         then (let alias = RemoveAll aliasTableName (CHR 0x22)
               in (''\"'' @ alias @ ''\".'' @ quotedFieldName @ '' AS \"'' @ alias @ ''.'' @ fieldName @ ''\"'')
                  # renderFields tableName alias rest)
         else (quotedTableName @ ''.'' @ quotedFieldName) # renderFields tableName aliasTableName rest)"

definition getFieldsByMode ::
  "cache \<Rightarrow> string \<Rightarrow> string \<Rightarrow> string \<Rightarrow> error + (string list \<times> string list)" where
  "getFieldsByMode c tableName mode aliasTableName =
     (case getModelInfo c tableName of
        None \<Rightarrow> Inl (Panic (''table name not initialized: '' @ tableName))
      | Some info \<Rightarrow>
          if mode = ''select''
          then Inr (renderFields tableName aliasTableName (dbFieldsSelect info), dbFieldsSelect info)
          else if mode = ''insert''
          then Inr (renderFields tableName aliasTableName (dbFieldsInsert info), dbFieldsInsert info)
          else if mode = ''update''
          then Inr (renderFields tableName aliasTableName (dbFieldsUpdate info), dbFieldsUpdate info)
          else Inl (Panic ''invalid mode''))"

definition GetSelectFields :: "cache \<Rightarrow> string \<Rightarrow> string \<Rightarrow> error + (string list \<times> string list)" where
  "GetSelectFields c tableName aliasTableName = getFieldsByMode c tableName ''select'' aliasTableName"

definition GetInsertFields :: "cache \<Rightarrow> string \<Rightarrow> error + (string list \<times> string list)" where
  "GetInsertFields c tableName = getFieldsByMode c tableName ''insert'' []"

definition GetUpdateFields :: "cache \<Rightarrow> string \<Rightarrow> error + (string list \<times> string list)" where
  "GetUpdateFields c tableName = getFieldsByMode c tableName ''update'' []"

definition GetInsertValues :: "cache \<Rightarrow> string \<Rightarrow> error + (string \<rightharpoonup> string)" where
  "GetInsertValues c tableName =
     (case getModelInfo c tableName of
        None \<Rightarrow> Inl (Panic (''table name not initialized: '' @ tableName))
      | Some info \<Rightarrow> Inr (dbInsertValueMap info))"

section \<open>filters.go: the filter and sort compiler\<close>

text \<open>
  \<^verbatim>\<open>Filter\<close> and \<^verbatim>\<open>Sort\<close> are Go maps, and \<^verbatim>\<open>range\<close> visits their entries
  in an order the language leaves open. The model takes the entries as a list, in the
  order in which the loop visits them; a nil pointer is \<open>None\<close>.
\<close>

type_synonym Filter = "(string \<times> val) list"
type_synonym Sort = "(string \<times> string) list"

text \<open>The bytes of the operator marker, the euro sign U+20AC in UTF-8.\<close>

definition euro :: string where
  "euro = [CHR 0xE2, CHR 0x82, CHR 0xAC]"

definition getConditionString :: "string \<Rightarrow> string" where
  "getConditionString operator =
     (if operator = ''$prefix'' \<or> operator = euro @ ''prefix'' then ''LIKE $%d''
      else if operator = ''$suffix'' \<or> operator = euro @ ''suffix'' then ''LIKE $%d''
      else if operator = ''$like'' \<or> operator = euro @ ''like'' then ''LIKE $%d''
      else if operator = ''$gt'' then ''> $%d''
      else if operator = ''$gte'' then ''>= $%d''
      else if operator = ''$lt'' then ''< $%d''
      else if operator = ''$lte'' then ''<= $%d''
      else if operator = ''$ne'' then ''!= $%d''
      else if operator = ''$in'' then ''= ANY($%d)''
      else if operator = ''$nin'' then ''!= ALL($%d)''
      else if operator = ''$eq'' \<or> operator = euro @ ''eq'' then ''= $%d''
      else ''= $%d'')"

text \<open>The field name and the operator token of a filter key.\<close>

definition keyField :: "string \<Rightarrow> string" where
  "keyField filterKey = (case Split filterKey (CHR ''['') of [] \<Rightarrow> [] | fieldName # rest \<Rightarrow> fieldName)"

definition keyOperator :: "string \<Rightarrow> string" where
  "keyOperator filterKey =
     (let fieldParts = Split filterKey (CHR ''['')
      in if length fieldParts > 1 then TrimSuffix (fieldParts ! 1) '']'' else [])"

text \<open>
  One round of the loop over the filter entries. The state is \<^verbatim>\<open>conditions\<close>,
  \<^verbatim>\<open>args\<close> and \<^verbatim>\<open>argCounter\<close>. The first \<^verbatim>\<open>Sprintf\<close> has a constant format and
  string operands and is the concatenation written here; its result is the format of the
  second one. \<open>toLower\<close> stands for \<^verbatim>\<open>strings.ToLower\<close>, whose Unicode case tables are
  not part of this package.
\<close>

definition filterEntry ::
  "(string \<Rightarrow> string) \<Rightarrow> modelInfo \<Rightarrow> string \<Rightarrow> string \<times> val \<Rightarrow>
   string list \<times> val list \<times> int \<Rightarrow> string list \<times> val list \<times> int" where
  "filterEntry toLower info t e st =
     (case st of (conditions, args, argCounter) \<Rightarrow>
      (let filterKey = fst e; filterValue = snd e;
           fieldName = keyField filterKey;
           operator = keyOperator filterKey
       in case dbTagMap info fieldName of
            None \<Rightarrow> (conditions, args, argCounter)
          | Some dbField \<Rightarrow>
              (let conditionStr = getConditionString operator;
                   isArray = (operator = ''$in'' \<or> operator = ''$nin'');
                   shouldLower = HasPrefix operator euro;
                   condition =
                     (if shouldLower
                      then ''LOWER(\"'' @ t @ ''\".'' @ dbField @ '') '' @ conditionStr
                      else ''\"'' @ t @ ''\".'' @ dbField @ '' '' @ conditionStr);
                   filterValue1 =
                     (if shouldLower
                      then (case filterValue of VStr strVal \<Rightarrow> VStr (toLower strVal) | other \<Rightarrow> other)
                      else filterValue);
                   filterValue2 = (if isArray then PqArray filterValue1 else filterValue1)
               in (conditions @ [Sprintf condition argCounter], args @ [filterValue2], argCounter + 1))))"

fun filterEntries ::
  "(string \<Rightarrow> string) \<Rightarrow> modelInfo \<Rightarrow> string \<Rightarrow> Filter \<Rightarrow>
   string list \<times> val list \<times> int \<Rightarrow> string list \<times> val list \<times> int" where
  "filterEntries toLower info t [] st = st"
| "filterEntries toLower info t (e # es) st =
     filterEntries toLower info t es (filterEntry toLower info t e st)"

definition constructConditions ::
  "(string \<Rightarrow> string) \<Rightarrow> cache \<Rightarrow> string \<Rightarrow> Filter option \<Rightarrow> string \<Rightarrow>
   error + (string list \<times> val list)" where
  "constructConditions toLower c t filters table =
     (case getModelInfo c table of
        None \<Rightarrow> Inl (Errorf (''table name not initialized: '' @ table))
      | Some info \<Rightarrow>
          (case filters of
             None \<Rightarrow> Inr ([], [])
           | Some es \<Rightarrow>
               (case filterEntries toLower info t es ([], [], 1) of
                  (conditions, args, argCounter) \<Rightarrow> Inr (conditions, args))))"

text \<open>
  The loop over the sort entries: the direction is checked before the field is looked
  up. \<open>toUpper\<close> stands for \<^verbatim>\<open>strings.ToUpper\<close>.
\<close>

fun sortEntries ::
  "(string \<Rightarrow> string) \<Rightarrow> modelInfo \<Rightarrow> string \<Rightarrow> Sort \<Rightarrow> string list \<Rightarrow> error + string list" where
  "sortEntries toUpper info t [] sortClauses = Inr sortClauses"
| "sortEntries toUpper info t ((fld, order0) # es) sortClauses =
     (let order = toUpper order0
      in if order \<noteq> ''ASC'' \<and> order \<noteq> ''DESC''
         then Inl (Errorf (''invalid sort order: '' @ order))
         else (case dbTagMap info fld of
                 Some dbField \<Rightarrow>
                   sortEntries toUpper info t es
                     (sortClauses @ [''\"'' @ t @ ''\".'' @ dbField @ '' '' @ order])
               | None \<Rightarrow> sortEntries toUpper info t es sortClauses))"

text \<open>
  \<^verbatim>\<open>FilterQuery\<close>. The page size and the page number are Go \<^verbatim>\<open>int\<close>s, 64 bits wide
  on the platforms the package is built for: the offset is computed with wrap-around and
  printed as a signed number. The sort loop looks the table up a second time and drops the
  flag of the lookup; a missing table would be a nil pointer there, but
  \<^verbatim>\<open>constructConditions\<close> has found the table by then (lemma \<open>FilterQuery_no_panic\<close>).
\<close>

definition limitOffset :: "64 word \<Rightarrow> 64 word \<Rightarrow> string" where
  "limitOffset perPage page =
     (let limit = perPage; offset = (page - 1) * perPage
      in '' LIMIT '' @ itoa (sint limit) @ '' OFFSET '' @ itoa (sint offset))"

definition FilterQuery ::
  "(string \<Rightarrow> string) \<Rightarrow> (string \<Rightarrow> string) \<Rightarrow> cache \<Rightarrow> string \<Rightarrow> string \<Rightarrow>
   Filter option \<Rightarrow> Sort option \<Rightarrow> string \<Rightarrow> 64 word \<Rightarrow> 64 word \<Rightarrow>
   error + (string \<times> val list)" where
  "FilterQuery toUpper toLower c baseQuery t filters sortMap table perPage page =
     (case constructConditions toLower c t filters table of
        Inl err \<Rightarrow> Inl err
      | Inr (conditions, args) \<Rightarrow>
          (let baseQuery1 =
                 (if length conditions > 0
                  then baseQuery @ '' WHERE '' @ Join conditions '' AND ''
                  else baseQuery)
           in case (case sortMap of
                      None \<Rightarrow> Inr baseQuery1
                    | Some es \<Rightarrow>
                        if length es > 0
                        then (case getModelInfo c table of
                                None \<Rightarrow> Inl (Panic ''runtime error: invalid memory address or nil pointer dereference'')
                              | Some info \<Rightarrow>
                                  (case sortEntries toUpper info t es [] of
                                     Inl err \<Rightarrow> Inl err
                                   | Inr sortClauses \<Rightarrow>
                                       if length sortClauses > 0
                                       then Inr (baseQuery1 @ '' ORDER BY '' @ Join sortClauses '', '')
                                       else Inr baseQuery1))
                        else Inr baseQuery1) of
                Inl err \<Rightarrow> Inl err
              | Inr baseQuery2 \<Rightarrow> Inr (baseQuery2 @ limitOffset perPage page, args)))"

text \<open>
  ASCII case mapping: \<^verbatim>\<open>strings.ToUpper\<close> and \<^verbatim>\<open>strings.ToLower\<close> on texts made of
  ASCII bytes only, for the examples.
\<close>

definition upperByte :: "char \<Rightarrow> char" where
  "upperByte c =
     (case map_of (zip ''abcdefghijklmnopqrstuvwxyz'' ''ABCDEFGHIJKLMNOPQRSTUVWXYZ'') c of
        Some u \<Rightarrow> u | None \<Rightarrow> c)"

definition lowerByte :: "char \<Rightarrow> char" where
  "lowerByte c =
     (case map_of (zip ''ABCDEFGHIJKLMNOPQRSTUVWXYZ'' ''abcdefghijklmnopqrstuvwxyz'') c of
        Some l \<Rightarrow> l | None \<Rightarrow> c)"

definition asciiUpper :: "string \<Rightarrow> string" where
  "asciiUpper s = map upperByte s"

definition asciiLower :: "string \<Rightarrow> string" where
  "asciiLower s = map lowerByte s"

text \<open>
  For the statement of what a known filter entry compiles to: the condition text for a
  column, an operator token and a placeholder number, and the value that is bound.
\<close>

definition conditionText :: "string \<Rightarrow> string \<Rightarrow> string \<Rightarrow> int \<Rightarrow> string" where
  "conditionText t dbField operator n =
     (if HasPrefix operator euro
      then ''LOWER(\"'' @ t @ ''\".'' @ dbField @ '') ''
      else ''\"'' @ t @ ''\".'' @ dbField @ '' '') @ Sprintf (getConditionString operator) n"

definition boundValue :: "(string \<Rightarrow> string) \<Rightarrow> string \<Rightarrow> val \<Rightarrow> val" where
  "boundValue toLower operator v =
     (let v1 = (if HasPrefix operator euro
                then (case v of VStr strVal \<Rightarrow> VStr (toLower strVal) | other \<Rightarrow> other)
                else v)
      in if operator = ''$in'' \<or> operator = ''$nin'' then PqArray v1 else v1)"

subsection \<open>The count rewriter\<close>

text \<open>
  The three regular expressions are
  \<^verbatim>\<open>(?i)\sLIMIT\s+\d+\<close>, \<^verbatim>\<open>(?i)\sOFFSET\s+\d+\<close> and \<^verbatim>\<open>(?i)\sORDER\s+BY\s+[^)]+\<close>.
  They are sequences of three kinds of items: one character of a class, a greedy
  repetition \<^verbatim>\<open>+\<close> of a class, and a choice between byte sequences. \<open>matchAtoms\<close>
  matches such a sequence at the start of a text the way Go's \<^verbatim>\<open>regexp\<close> does for
  a fixed start position: a repetition tries its longest run first and gives characters
  back one at a time, a choice tries its alternatives in order; the result is what is
  left of the text after the first match found, or \<open>None\<close>.
\<close>

datatype atom = One "char \<Rightarrow> bool" | Many "char \<Rightarrow> bool" | Alt "string list"

fun firstSome :: "'a option list \<Rightarrow> 'a option" where
  "firstSome [] = None"
| "firstSome (None # xs) = firstSome xs"
| "firstSome (Some x # xs) = Some x"

fun matchAtoms :: "atom list \<Rightarrow> string \<Rightarrow> string option" where
  "matchAtoms [] s = Some s"
| "matchAtoms (One p # atoms) s =
     (case s of [] \<Rightarrow> None | c # cs \<Rightarrow> if p c then matchAtoms atoms cs else None)"
| "matchAtoms (Many p # atoms) s =
     firstSome (map (\<lambda>k. matchAtoms atoms (drop k s)) (rev [1..<Suc (length (takeWhile p s))]))"
| "matchAtoms (Alt ws # atoms) s =
     firstSome (map (\<lambda>w. if HasPrefix s w then matchAtoms atoms (drop (length w) s) else None) ws)"

declare matchAtoms.simps(3,4) [simp del]

text \<open>
  In Go's syntax \<^verbatim>\<open>\s\<close> is one of tab, line feed, form feed, carriage return and
  space, and \<^verbatim>\<open>\d\<close> is an ASCII digit. Under the flag \<^verbatim>\<open>(?i)\<close> a letter matches
  its upper and its lower case; the letter S matches a third character as well, the
  long s U+017F, in UTF-8 the bytes C5 BF. No other letter of the three expressions has
  a further case variant.
\<close>

definition isSpace :: "char \<Rightarrow> bool" where
  "isSpace c = (c = CHR 0x09 \<or> c = CHR 0x0A \<or> c = CHR 0x0C \<or> c = CHR 0x0D \<or> c = CHR 0x20)"

definition isDigit :: "char \<Rightarrow> bool" where
  "isDigit c = (c \<in> set ''0123456789'')"







definition lits :: "string \<Rightarrow> string \<Rightarrow> atom list" where
  "lits us ls = map (\<lambda>ul. One (\<lambda>c. c = fst ul \<or> c = snd ul)) (zip us ls)"

definition limitAtoms :: "atom list" where
  "limitAtoms = One isSpace # lits ''LIMIT'' ''limit'' @ [Many isSpace, Many isDigit]"

definition offsetAtoms :: "atom list" where
  "offsetAtoms =
     One isSpace # lits ''OFF'' ''off'' @ Alt [''S'', ''s'', [CHR 0xC5, CHR 0xBF]] #
     lits ''ET'' ''et'' @ [Many isSpace, Many isDigit]"

definition orderByAtoms :: "atom list" where
  "orderByAtoms =
     One isSpace # lits ''ORDER'' ''order'' @ Many isSpace # lits ''BY'' ''by'' @
     [Many isSpace, Many (\<lambda>c. c \<noteq> CHR '')'')]"

definition reLimit :: "string \<Rightarrow> string option" where
  "reLimit s = matchAtoms limitAtoms s"

definition reOffset :: "string \<Rightarrow> string option" where
  "reOffset s = matchAtoms offsetAtoms s"

definition reOrderBy :: "string \<Rightarrow> string option" where
  "reOrderBy s = matchAtoms orderByAtoms s"

text \<open>
  \<^verbatim>\<open>re.ReplaceAllString(s, "")\<close>: the matches are found from left to right, the
  search goes on where a match ends, and every match is deleted. The number of bytes a
  match covers is the difference of the lengths.
\<close>

fun ReplaceAllString :: "(string \<Rightarrow> string option) \<Rightarrow> string \<Rightarrow> string" where
  "ReplaceAllString re [] = []"
| "ReplaceAllString re (c # cs) =
     (case re (c # cs) of
        None \<Rightarrow> c # ReplaceAllString re cs
      | Some rest \<Rightarrow> ReplaceAllString re (drop (length cs - length rest) cs))"

text \<open>
  \<^verbatim>\<open>strings.TrimSpace\<close> removes the white-space characters of Unicode from both ends.
  These are their UTF-8 encodings: the six ASCII ones, U+0085, U+00A0, U+1680, U+2000 to
  U+200A, U+2028, U+2029, U+202F, U+205F and U+3000.
\<close>

definition spaceRunes :: "string list" where
  "spaceRunes =
     [[CHR 0x09], [CHR 0x0A], [CHR 0x0B], [CHR 0x0C], [CHR 0x0D], [CHR 0x20],
      [CHR 0xC2, CHR 0x85], [CHR 0xC2, CHR 0xA0], [CHR 0xE1, CHR 0x9A, CHR 0x80],
      [CHR 0xE2, CHR 0x80, CHR 0x80], [CHR 0xE2, CHR 0x80, CHR 0x81],
      [CHR 0xE2, CHR 0x80, CHR 0x82], [CHR 0xE2, CHR 0x80, CHR 0x83],
      [CHR 0xE2, CHR 0x80, CHR 0x84], [CHR 0xE2, CHR 0x80, CHR 0x85],
      [CHR 0xE2, CHR 0x80, CHR 0x86], [CHR 0xE2, CHR 0x80, CHR 0x87],
      [CHR 0xE2, CHR 0x80, CHR 0x88], [CHR 0xE2, CHR 0x80, CHR 0x89],
      [CHR 0xE2, CHR 0x80, CHR 0x8A], [CHR 0xE2, CHR 0x80, CHR 0xA8],
      [CHR 0xE2, CHR 0x80, CHR 0xA9], [CHR 0xE2, CHR 0x80, CHR 0xAF],
      [CHR 0xE2, CHR 0x81, CHR 0x9F], [CHR 0xE3, CHR 0x80, CHR 0x80]]"

fun trimLeftBy :: "string list \<Rightarrow> string \<Rightarrow> string" where
  "trimLeftBy pats [] = []"
| "trimLeftBy pats (c # cs) =
     (case find (\<lambda>p. p \<noteq> [] \<and> HasPrefix (c # cs) p) pats of
        None \<Rightarrow> c # cs
      | Some p \<Rightarrow> trimLeftBy pats (drop (length p - 1) cs))"

definition TrimSpace :: "string \<Rightarrow> string" where
  "TrimSpace s = rev (trimLeftBy (map rev spaceRunes) (rev (trimLeftBy spaceRunes s)))"

definition BuildFilterCount :: "string \<Rightarrow> string" where
  "BuildFilterCount baseQuery =
     (let q1 = ReplaceAllString reLimit baseQuery;
          q2 = ReplaceAllString reOffset q1;
          q3 = TrimSpace q2;
          q4 = ReplaceAllString reOrderBy q3;
          q5 = TrimSpace q4
      in ''SELECT COUNT(*) FROM ('' @ q5 @ '') AS count_subquery'')"

text \<open>
  For the statement of what the count rewriter strips: \<open>caseVariant us ls s\<close> says
  that \<open>s\<close> is the keyword \<open>us\<close>, each letter in upper or in lower case.
\<close>

definition caseVariant :: "string \<Rightarrow> string \<Rightarrow> string \<Rightarrow> bool" where
  "caseVariant us ls s = list_all2 (\<lambda>c ul. c = fst ul \<or> c = snd ul) s (zip us ls)"

section \<open>orm.go: insert and update statements\<close>

definition isSQLFunction :: "string \<Rightarrow> bool" where
  "isSQLFunction v = (v \<in> {''NOW()'', ''NULL'', ''true'', ''false'', ''DEFAULT''})"

text \<open>
  One round of the loop of \<^verbatim>\<open>GetInsertQuery\<close>; the state is \<^verbatim>\<open>columns\<close>,
  \<^verbatim>\<open>placeholders\<close>, \<^verbatim>\<open>queryValues\<close> and \<^verbatim>\<open>counter\<close>. A default value is a
  string, bound as such.
\<close>

definition insertField ::
  "(string \<rightharpoonup> val) \<Rightarrow> (string \<rightharpoonup> string) \<Rightarrow> string \<Rightarrow>
   string list \<times> string list \<times> val list \<times> int \<Rightarrow> string list \<times> string list \<times> val list \<times> int" where
  "insertField valuesMap defaultValues fld st =
     (case st of (columns, placeholders, queryValues, counter) \<Rightarrow>
        (case valuesMap fld of
           Some v \<Rightarrow>
             (columns @ [fld], placeholders @ [''$'' @ itoa counter], queryValues @ [v], counter + 1)
         | None \<Rightarrow>
             (case defaultValues fld of
                Some defVal \<Rightarrow>
                  if isSQLFunction defVal
                  then (columns @ [fld], placeholders @ [defVal], queryValues, counter)
                  else (columns @ [fld], placeholders @ [''$'' @ itoa counter],
                        queryValues @ [VStr defVal], counter + 1)
              | None \<Rightarrow> (columns @ [fld], placeholders @ [''DEFAULT''], queryValues, counter))))"

fun insertFields ::
  "(string \<rightharpoonup> val) \<Rightarrow> (string \<rightharpoonup> string) \<Rightarrow> string list \<Rightarrow>
   string list \<times> string list \<times> val list \<times> int \<Rightarrow> string list \<times> string list \<times> val list \<times> int" where
  "insertFields valuesMap defaultValues [] st = st"
| "insertFields valuesMap defaultValues (fld # flds) st =
     insertFields valuesMap defaultValues flds (insertField valuesMap defaultValues fld st)"

definition GetInsertQuery ::
  "cache \<Rightarrow> string \<Rightarrow> (string \<rightharpoonup> val) \<Rightarrow> string \<Rightarrow> error + (string \<times> val list)" where
  "GetInsertQuery c tableName valuesMap returning =
     (case GetInsertFields c tableName of
        Inl e \<Rightarrow> Inl e
      | Inr (quoted, names) \<Rightarrow>
          (case GetInsertValues c tableName of
             Inl e \<Rightarrow> Inl e
           | Inr defaultValues \<Rightarrow>
               (case insertFields valuesMap defaultValues names ([], [], [], 1) of
                  (columns, placeholders, queryValues, counter) \<Rightarrow>
                    (let query = ''INSERT INTO \"'' @ tableName @ ''\" ('' @ Join columns '','' @
                                 '') VALUES ('' @ Join placeholders '','' @ '')''
                     in Inr (if returning \<noteq> []
                             then query @ '' RETURNING \"'' @ returning @ ''\"''
                             else query,
                             queryValues)))))"

text \<open>
  For the statement of what \<^verbatim>\<open>GetInsertQuery\<close> emits, given the set \<open>keywords\<close>
  of the default texts that are spliced: a column binds a parameter when the value map
  has it or when it has a default that is not in \<open>keywords\<close>; \<open>insertSlot\<close> says what
  stands at position \<open>i\<close> of the placeholder list, and which bound value belongs to
  it, \<open>k\<close> being the number of parameters bound before.
\<close>

definition binds :: "string set \<Rightarrow> (string \<rightharpoonup> val) \<Rightarrow> (string \<rightharpoonup> string) \<Rightarrow> string \<Rightarrow> bool" where
  "binds keywords valuesMap defaultValues col =
     (case valuesMap col of
        Some v \<Rightarrow> True
      | None \<Rightarrow> (case defaultValues col of Some d \<Rightarrow> d \<notin> keywords | None \<Rightarrow> False))"

definition insertSlot ::
  "string set \<Rightarrow> (string \<rightharpoonup> val) \<Rightarrow> (string \<rightharpoonup> string) \<Rightarrow>
   string list \<Rightarrow> string list \<Rightarrow> val list \<Rightarrow> nat \<Rightarrow> bool" where
  "insertSlot keywords valuesMap defaultValues cols placeholders queryValues i =
     (let col = cols ! i;
          k = length (filter (binds keywords valuesMap defaultValues) (take i cols))
      in case valuesMap col of
           Some v \<Rightarrow> placeholders ! i = ''$'' @ itoa (int k + 1) \<and> queryValues ! k = v
         | None \<Rightarrow>
             (case defaultValues col of
                Some d \<Rightarrow>
                  if d \<in> keywords then placeholders ! i = d
                  else placeholders ! i = ''$'' @ itoa (int k + 1) \<and> queryValues ! k = VStr d
              | None \<Rightarrow> placeholders ! i = ''DEFAULT''))"

text \<open>One round of the loop of \<^verbatim>\<open>GetUpdateQuery\<close>.\<close>

definition updateField ::
  "(string \<rightharpoonup> val) \<Rightarrow> string \<Rightarrow> string list \<times> val list \<times> int \<Rightarrow> string list \<times> val list \<times> int" where
  "updateField valuesMap fld st =
     (case st of (setClauses, queryValues, counter) \<Rightarrow>
        (case valuesMap fld of
           Some v \<Rightarrow> (setClauses @ [fld @ '' = $'' @ itoa counter], queryValues @ [v], counter + 1)
         | None \<Rightarrow> (setClauses, queryValues, counter)))"

fun updateFields ::
  "(string \<rightharpoonup> val) \<Rightarrow> string list \<Rightarrow> string list \<times> val list \<times> int \<Rightarrow> string list \<times> val list \<times> int" where
  "updateFields valuesMap [] st = st"
| "updateFields valuesMap (fld # flds) st = updateFields valuesMap flds (updateField valuesMap fld st)"

definition GetUpdateQuery ::
  "cache \<Rightarrow> string \<Rightarrow> (string \<rightharpoonup> val) \<Rightarrow> string \<Rightarrow> error + (string \<times> val list)" where
  "GetUpdateQuery c tableName valuesMap returning =
     (case GetUpdateFields c tableName of
        Inl e \<Rightarrow> Inl e
      | Inr (quoted, names) \<Rightarrow>
          (case updateFields valuesMap names ([], [], 1) of
             (setClauses, queryValues, counter) \<Rightarrow>
               if length setClauses = 0 then Inl (Panic ''No fields to update'')
               else (case valuesMap returning of
                       None \<Rightarrow> Inl (Panic ''Primary key not found in valuesMap'')
                     | Some primaryKey \<Rightarrow>
                         Inr (''UPDATE \"'' @ tableName @ ''\" SET '' @ Join setClauses '', '' @
                              '' WHERE \"'' @ returning @ ''\" = $'' @ itoa counter @
                              '' RETURNING \"'' @ returning @ ''\"'',
                              queryValues @ [primaryKey]))))"

section \<open>Example tables\<close>

text \<open>
  The table of the specification's examples: \<open>id\<close> (insertable), \<open>name\<close> (insertable,
  updatable), \<open>note\<close> (insertable, updatable, default \<open>NULL\<close>), with a field \<open>age\<close>
  for the filter example; the struct \<^verbatim>\<open>WebsiteTest\<close> of the test file, which has a
  linked field, with a skipped field added; and a table whose insertable columns have
  defaults of every kind: keywords, a keyword in another letter case, and SQL text.
\<close>

definition noteFields :: "field list" where
  "noteFields =
     [\<lparr>Name = ''id'', db = ''id'', dbMode = ''i'', dbInsertValue = []\<rparr>,
      \<lparr>Name = ''name'', db = ''name'', dbMode = ''i,u'', dbInsertValue = []\<rparr>,
      \<lparr>Name = ''note'', db = ''note'', dbMode = ''i,u'', dbInsertValue = ''NULL''\<rparr>]"

definition personFields :: "field list" where
  "personFields =
     [\<lparr>Name = ''id'', db = ''id'', dbMode = ''i'', dbInsertValue = []\<rparr>,
      \<lparr>Name = ''name'', db = ''name'', dbMode = ''i,u'', dbInsertValue = []\<rparr>,
      \<lparr>Name = ''age'', db = ''age'', dbMode = ''i,u'', dbInsertValue = []\<rparr>]"

definition websiteFields :: "field list" where
  "websiteFields =
     [\<lparr>Name = ''UUID'', db = ''uuid'', dbMode = ''i'', dbInsertValue = []\<rparr>,
      \<lparr>Name = ''CreatedAt'', db = ''created_at'', dbMode = ''i'', dbInsertValue = ''NOW()''\<rparr>,
      \<lparr>Name = ''UpdatedAt'', db = ''updated_at'', dbMode = ''i'', dbInsertValue = ''NOW()''\<rparr>,
      \<lparr>Name = ''Domain'', db = ''domain'', dbMode = ''i,u'', dbInsertValue = []\<rparr>,
      \<lparr>Name = ''Realm'', db = ''r'', dbMode = ''l'', dbInsertValue = []\<rparr>,
      \<lparr>Name = ''RealmUUID'', db = ''realm_uuid'', dbMode = ''i'', dbInsertValue = []\<rparr>,
      \<lparr>Name = ''Secret'', db = ''secret'', dbMode = ''i,s'', dbInsertValue = []\<rparr>]"

definition eventFields :: "field list" where
  "eventFields =
     [\<lparr>Name = ''ID'', db = ''id'', dbMode = ''i'', dbInsertValue = []\<rparr>,
      \<lparr>Name = ''CreatedAt'', db = ''created_at'', dbMode = ''i'', dbInsertValue = ''NOW()''\<rparr>,
      \<lparr>Name = ''ChangedAt'', db = ''changed_at'', dbMode = ''i,u'', dbInsertValue = ''now()''\<rparr>,
      \<lparr>Name = ''Status'', db = ''status'', dbMode = ''i,u'', dbInsertValue = ''0); DROP TABLE t; --''\<rparr>,
      \<lparr>Name = ''Active'', db = ''active'', dbMode = ''i,u'', dbInsertValue = ''true''\<rparr>,
      \<lparr>Name = ''Title'', db = ''title'', dbMode = ''i,u'', dbInsertValue = []\<rparr>]"

definition noteCache :: cache where
  "noteCache = Map.empty(''t'' \<mapsto> initFields noteFields emptyInfo)"

definition personCache :: cache where
  "personCache = Map.empty(''t'' \<mapsto> initFields personFields emptyInfo)"

definition eventCache :: cache where
  "eventCache = Map.empty(''e'' \<mapsto> initFields eventFields emptyInfo)"

section \<open>The registry\<close>

lemma initField_select:
  "dbFieldsSelect (initField f mi) = dbFieldsSelect mi @ (if listed f then [db f] else [])"
  by (simp add: initField_def listed_def tagged_def linked_def skipped_def Let_def)

lemma initField_insert:
  "dbFieldsInsert (initField f mi) =
     dbFieldsInsert mi @ (if listed f \<and> ''i'' \<in> modeFlags f then [db f] else [])"
  by (simp add: initField_def listed_def tagged_def linked_def skipped_def Let_def)

lemma initField_update:
  "dbFieldsUpdate (initField f mi) =
     dbFieldsUpdate mi @ (if listed f \<and> ''u'' \<in> modeFlags f then [db f] else [])"
  by (simp add: initField_def listed_def tagged_def linked_def skipped_def Let_def)

lemma initField_linked:
  "linkedFields (initField f mi) =
     (if tagged f \<and> linked f then (linkedFields mi)(Name f \<mapsto> db f) else linkedFields mi)"
  by (simp add: initField_def tagged_def linked_def Let_def)

lemma initFields_select:
  "dbFieldsSelect (initFields fs mi) = dbFieldsSelect mi @ map db (filter listed fs)"
  by (induction fs arbitrary: mi) (simp_all add: initField_select)

lemma initFields_insert:
  "dbFieldsInsert (initFields fs mi) =
     dbFieldsInsert mi @ map db (filter (\<lambda>f. listed f \<and> ''i'' \<in> modeFlags f) fs)"
  by (induction fs arbitrary: mi) (simp_all add: initField_insert)

lemma initFields_update:
  "dbFieldsUpdate (initFields fs mi) =
     dbFieldsUpdate mi @ map db (filter (\<lambda>f. listed f \<and> ''u'' \<in> modeFlags f) fs)"
  by (induction fs arbitrary: mi) (simp_all add: initField_update)

lemma initFields_linked_dom:
  "dom (linkedFields (initFields fs mi)) =
     dom (linkedFields mi) \<union> Name ` {f \<in> set fs. tagged f \<and> linked f}"
  by (induction fs arbitrary: mi) (auto simp: initField_linked)

lemma initFields_linked_other:
  "n \<notin> Name ` set fs \<Longrightarrow> linkedFields (initFields fs mi) n = linkedFields mi n"
  by (induction fs arbitrary: mi) (auto simp: initField_linked)

lemma initFields_linked_value:
  "distinct (map Name fs) \<Longrightarrow> f \<in> set fs \<Longrightarrow> tagged f \<Longrightarrow> linked f \<Longrightarrow>
   linkedFields (initFields fs mi) (Name f) = Some (db f)"
proof (induction fs arbitrary: mi)
  case Nil
  then show ?case by simp
next
  case (Cons g gs)
  show ?case
  proof (cases "f = g")
    case True
    with Cons.prems have "Name f \<notin> Name ` set gs" by auto
    then show ?thesis
      using True Cons.prems by (simp add: initFields_linked_other initField_linked)
  next
    case False
    with Cons show ?thesis by simp
  qed
qed

lemma unlisted_column_absent:
  assumes "distinct (map db (filter tagged fs))" and "f \<in> set fs" and "\<not> listed f"
  shows "db f \<notin> db ` {g \<in> set fs. listed g}"
proof
  assume "db f \<in> db ` {g \<in> set fs. listed g}"
  then obtain g where g: "g \<in> set fs" "listed g" "db g = db f" by auto
  then have tg: "tagged g" by (simp add: listed_def)
  then have tf: "tagged f" using g by (simp add: tagged_def)
  from assms(1) have "inj_on db (set (filter tagged fs))" by (simp add: distinct_map)
  with g tg tf assms(2) have "g = f" by (auto dest: inj_onD)
  with g assms(3) show False by simp
qed

text \<open>
  C1. A second call of \<^verbatim>\<open>InitModelTagCache\<close> for a table name that is in the cache
  returns at once and leaves the cache as the first registration made it, whatever the
  second model is (a model that is not a struct included: it is never inspected).
\<close>

theorem InitModelTagCache_idempotent:
  assumes "InitModelTagCache m tableName c = Inr c1"
  shows "InitModelTagCache m2 tableName c1 = Inr c1"
  using assms
  by (auto simp: InitModelTagCache_def getModelInfo_def split: option.splits sum.splits)

theorem InitModelTagCache_idempotent_witness:
  "InitModelTagCache (Some (Struct noteFields)) ''t'' Map.empty = Inr noteCache \<and>
   InitModelTagCache (Some (Other ''int'')) ''t'' noteCache = Inr noteCache"
proof -
  have first: "InitModelTagCache (Some (Struct noteFields)) ''t'' Map.empty = Inr noteCache"
    by (simp add: InitModelTagCache_def getModelInfo_def getModelType_def noteCache_def)
  from InitModelTagCache_idempotent [OF first] first show ?thesis by simp
qed

text \<open>
  C2, as amended. For a table name that is not in the cache, \<^verbatim>\<open>getFieldsByMode\<close> and
  with it \<^verbatim>\<open>GetSelectFields\<close>, \<^verbatim>\<open>GetInsertFields\<close>, \<^verbatim>\<open>GetUpdateFields\<close>, and
  \<^verbatim>\<open>GetInsertValues\<close> and the two statement builders panic; \<^verbatim>\<open>FilterQuery\<close> does
  not panic: it returns the error that \<^verbatim>\<open>constructConditions\<close> makes with
  \<^verbatim>\<open>fmt.Errorf\<close>.
\<close>

theorem unregistered_table_lookup:
  assumes "getModelInfo c tableName = None"
  shows "getFieldsByMode c tableName mode alias =
       Inl (Panic (''table name not initialized: '' @ tableName)) \<and>
     fatal (GetSelectFields c tableName alias) \<and>
     fatal (GetInsertFields c tableName) \<and>
     fatal (GetUpdateFields c tableName) \<and>
     fatal (GetInsertValues c tableName) \<and>
     fatal (GetInsertQuery c tableName valuesMap returning) \<and>
     fatal (GetUpdateQuery c tableName valuesMap returning) \<and>
     FilterQuery toUpper toLower c baseQuery t filters sortMap tableName perPage page =
       Inl (Errorf (''table name not initialized: '' @ tableName)) \<and>
     \<not> fatal (FilterQuery toUpper toLower c baseQuery t filters sortMap tableName perPage page)"
  using assms
  by (simp add: getFieldsByMode_def GetSelectFields_def GetInsertFields_def GetUpdateFields_def
      GetInsertValues_def GetInsertQuery_def GetUpdateQuery_def FilterQuery_def
      constructConditions_def)

theorem unregistered_table_lookup_witness:
  "getModelInfo noteCache ''u'' = None \<and>
   fatal (GetInsertValues noteCache ''u'') \<and>
   GetSelectFields noteCache ''u'' [] = Inl (Panic ''table name not initialized: u'') \<and>
   FilterQuery asciiUpper asciiLower noteCache ''SELECT 1'' ''u'' None None ''u'' 10 1 =
     Inl (Errorf ''table name not initialized: u'')"
proof -
  have absent: "getModelInfo noteCache ''u'' = None"
    by (simp add: getModelInfo_def noteCache_def)
  from unregistered_table_lookup [OF absent, of "''select''" "[]" Map.empty "[]"
      asciiUpper asciiLower "''SELECT 1''" "''u''" None None 10 1] absent
  show ?thesis by (simp add: GetSelectFields_def)
qed

text \<open>
  C2 as stated fails: \<^verbatim>\<open>FilterQuery\<close> on a table that was never registered returns an
  error value, it does not abort.
\<close>

theorem FilterQuery_unregistered_not_fatal:
  "\<not> fatal (FilterQuery asciiUpper asciiLower Map.empty ''SELECT 1'' ''t'' None None ''t'' 10 1)"
  by (simp add: FilterQuery_def constructConditions_def getModelInfo_def)

text \<open>
  C9. The three column lists are the columns of the listed fields (tagged, neither
  linked nor skipped) in declaration order, so a field flagged \<open>s\<close>, \<open>l\<close> or \<open>link\<close>
  adds nothing to them; the linked fields with a column tag are exactly the keys of
  \<^verbatim>\<open>linkedFields\<close>, each mapped to its tag, the join alias. Where the column tags are
  pairwise different, the tag of a skipped or linked field is in none of the lists.
\<close>

theorem skip_and_linked_fields_excluded:
  assumes "getModelInfo c tableName = None"
    and "getModelType m = Inr fs"
  shows "InitModelTagCache m tableName c = Inr (c(tableName \<mapsto> initFields fs emptyInfo)) \<and>
     (let info = initFields fs emptyInfo in
      dbFieldsSelect info = map db (filter listed fs) \<and>
      dbFieldsInsert info = map db (filter (\<lambda>f. listed f \<and> ''i'' \<in> modeFlags f) fs) \<and>
      dbFieldsUpdate info = map db (filter (\<lambda>f. listed f \<and> ''u'' \<in> modeFlags f) fs) \<and>
      dom (linkedFields info) = Name ` {f \<in> set fs. tagged f \<and> linked f} \<and>
      (distinct (map Name fs) \<longrightarrow>
         (\<forall>f \<in> set fs. tagged f \<and> linked f \<longrightarrow> linkedFields info (Name f) = Some (db f))) \<and>
      (distinct (map db (filter tagged fs)) \<longrightarrow>
         (\<forall>f \<in> set fs. skipped f \<or> linked f \<longrightarrow>
            db f \<notin> set (dbFieldsSelect info) \<union> set (dbFieldsInsert info) \<union> set (dbFieldsUpdate info))))"
proof -
  let ?info = "initFields fs emptyInfo"
  have reg: "InitModelTagCache m tableName c = Inr (c(tableName \<mapsto> ?info))"
    using assms by (simp add: InitModelTagCache_def)
  have sel: "dbFieldsSelect ?info = map db (filter listed fs)"
    by (simp add: initFields_select emptyInfo_def)
  have ins: "dbFieldsInsert ?info = map db (filter (\<lambda>f. listed f \<and> ''i'' \<in> modeFlags f) fs)"
    by (simp add: initFields_insert emptyInfo_def)
  have upd: "dbFieldsUpdate ?info = map db (filter (\<lambda>f. listed f \<and> ''u'' \<in> modeFlags f) fs)"
    by (simp add: initFields_update emptyInfo_def)
  have dm: "dom (linkedFields ?info) = Name ` {f \<in> set fs. tagged f \<and> linked f}"
    by (simp add: initFields_linked_dom emptyInfo_def)
  have lv: "distinct (map Name fs) \<longrightarrow>
        (\<forall>f \<in> set fs. tagged f \<and> linked f \<longrightarrow> linkedFields ?info (Name f) = Some (db f))"
    by (simp add: initFields_linked_value)
  have ex: "distinct (map db (filter tagged fs)) \<longrightarrow>
        (\<forall>f \<in> set fs. skipped f \<or> linked f \<longrightarrow>
           db f \<notin> set (dbFieldsSelect ?info) \<union> set (dbFieldsInsert ?info) \<union> set (dbFieldsUpdate ?info))"
  proof (intro impI ballI)
    fix f
    assume d: "distinct (map db (filter tagged fs))" and f: "f \<in> set fs"
      and s: "skipped f \<or> linked f"
    from s have "\<not> listed f" by (auto simp: listed_def)
    from unlisted_column_absent [OF d f this]
    show "db f \<notin> set (dbFieldsSelect ?info) \<union> set (dbFieldsInsert ?info) \<union> set (dbFieldsUpdate ?info)"
      unfolding sel ins upd by auto
  qed
  from reg sel ins upd dm lv ex show ?thesis by (simp add: Let_def)
qed

theorem skip_and_linked_fields_excluded_witness:
  "getModelInfo Map.empty ''website'' = None \<and>
   getModelType (Some (Ptr (Struct websiteFields))) = Inr websiteFields \<and>
   distinct (map Name websiteFields) \<and>
   distinct (map db (filter tagged websiteFields)) \<and>
   dbFieldsSelect (initFields websiteFields emptyInfo) =
     [''uuid'', ''created_at'', ''updated_at'', ''domain'', ''realm_uuid''] \<and>
   dbFieldsInsert (initFields websiteFields emptyInfo) =
     [''uuid'', ''created_at'', ''updated_at'', ''domain'', ''realm_uuid''] \<and>
   dbFieldsUpdate (initFields websiteFields emptyInfo) = [''domain''] \<and>
   linkedFields (initFields websiteFields emptyInfo) ''Realm'' = Some ''r'' \<and>
   ''r'' \<notin> set (dbFieldsSelect (initFields websiteFields emptyInfo)) \<and>
   ''secret'' \<notin> set (dbFieldsInsert (initFields websiteFields emptyInfo))"
proof -
  let ?realm = "\<lparr>Name = ''Realm'', db = ''r'', dbMode = ''l'', dbInsertValue = []\<rparr>"
  let ?secret = "\<lparr>Name = ''Secret'', db = ''secret'', dbMode = ''i,s'', dbInsertValue = []\<rparr>"
  have h1: "getModelInfo Map.empty ''website'' = None" by (simp add: getModelInfo_def)
  have h2: "getModelType (Some (Ptr (Struct websiteFields))) = Inr websiteFields"
    by (simp add: getModelType_def)
  have d1: "distinct (map Name websiteFields)" by code_simp
  have d2: "distinct (map db (filter tagged websiteFields))" by code_simp
  have l1: "map db (filter listed websiteFields) =
     [''uuid'', ''created_at'', ''updated_at'', ''domain'', ''realm_uuid'']" by code_simp
  have l2: "map db (filter (\<lambda>f. listed f \<and> ''i'' \<in> modeFlags f) websiteFields) =
     [''uuid'', ''created_at'', ''updated_at'', ''domain'', ''realm_uuid'']" by code_simp
  have l3: "map db (filter (\<lambda>f. listed f \<and> ''u'' \<in> modeFlags f) websiteFields) = [''domain'']"
    by code_simp
  have r: "?realm \<in> set websiteFields" "tagged ?realm" "linked ?realm"
    by (simp_all add: websiteFields_def tagged_def linked_def modeFlags_def)
  have s: "?secret \<in> set websiteFields" "skipped ?secret"
    by (simp_all add: websiteFields_def skipped_def modeFlags_def)
  note th = skip_and_linked_fields_excluded [OF h1 h2, unfolded Let_def]
  from th have sel: "dbFieldsSelect (initFields websiteFields emptyInfo) = map db (filter listed websiteFields)"
    by blast
  from th have ins: "dbFieldsInsert (initFields websiteFields emptyInfo) =
      map db (filter (\<lambda>f. listed f \<and> ''i'' \<in> modeFlags f) websiteFields)"
    by blast
  from th have upd: "dbFieldsUpdate (initFields websiteFields emptyInfo) =
      map db (filter (\<lambda>f. listed f \<and> ''u'' \<in> modeFlags f) websiteFields)"
    by blast
  from th d1 r have lnk: "linkedFields (initFields websiteFields emptyInfo) (Name ?realm) = Some (db ?realm)"
    by blast
  from th d2 r have a1: "db ?realm \<notin> set (dbFieldsSelect (initFields websiteFields emptyInfo))"
    by blast
  from th d2 s have a2: "db ?secret \<notin> set (dbFieldsInsert (initFields websiteFields emptyInfo))"
    by blast
  from lnk a1 a2 have "linkedFields (initFields websiteFields emptyInfo) ''Realm'' = Some ''r''"
    and "''r'' \<notin> set (dbFieldsSelect (initFields websiteFields emptyInfo))"
    and "''secret'' \<notin> set (dbFieldsInsert (initFields websiteFields emptyInfo))"
    by simp_all
  with h1 h2 d1 d2 sel ins upd l1 l2 l3 show ?thesis by presburger
qed

section \<open>The filter and sort compiler\<close>

text \<open>\<^verbatim>\<open>FilterQuery\<close> never panics: every failure of it is an error value.\<close>

lemma sortEntries_no_panic:
  "sortEntries toUpper info t es acc \<noteq> Inl (Panic msg)"
  by (induction es arbitrary: acc) (auto simp: Let_def split: option.splits if_splits)

lemma FilterQuery_no_panic:
  "FilterQuery toUpper toLower c baseQuery t filters sortMap table perPage page \<noteq> Inl (Panic msg)"
proof (cases "getModelInfo c table")
  case None
  then show ?thesis by (simp add: FilterQuery_def constructConditions_def)
next
  case (Some info)
  then show ?thesis
    using sortEntries_no_panic [of toUpper info t _ "[]" msg]
    by (auto simp: FilterQuery_def constructConditions_def Let_def
        split: option.splits sum.splits prod.splits if_splits)
qed

lemma sint_offset_exact:
  fixes page perPage :: "64 word"
  assumes "- (2 ^ 63) \<le> (sint page - 1) * sint perPage" and "(sint page - 1) * sint perPage < 2 ^ 63"
  shows "sint ((page - 1) * perPage) = (sint page - 1) * sint perPage"
proof -
  have "(page - 1) * perPage = word_of_int ((sint page - 1) * sint perPage)"
    by simp
  then have "sint ((page - 1) * perPage) = signed_take_bit (LENGTH(64) - 1) ((sint page - 1) * sint perPage)"
    by (simp only: sint_sbintrunc')
  also have "\<dots> = (sint page - 1) * sint perPage"
    by (rule signed_take_bit_int_eq_self) (use assms in simp_all)
  finally show ?thesis .
qed

lemma person_registered: "getModelInfo personCache ''t'' = Some (initFields personFields emptyInfo)"
  by (simp add: getModelInfo_def personCache_def)

text \<open>
  C10. On a registered table, with no filter entries and no sort entries,
  \<^verbatim>\<open>FilterQuery\<close> returns the base query followed by the page size and the offset
  as decimal text, and no arguments. The offset is \<open>(page - 1) * perPage\<close> in the
  64-bit arithmetic of Go; it is the mathematical product whenever that fits.
\<close>

theorem FilterQuery_page_only:
  assumes "getModelInfo c table = Some info"
    and "filters = None \<or> filters = Some []"
    and "sortMap = None \<or> sortMap = Some []"
  shows "FilterQuery toUpper toLower c baseQuery t filters sortMap table perPage page =
       Inr (baseQuery @ '' LIMIT '' @ itoa (sint perPage) @ '' OFFSET '' @
            itoa (sint ((page - 1) * perPage)), []) \<and>
     (- (2 ^ 63) \<le> (sint page - 1) * sint perPage \<and> (sint page - 1) * sint perPage < 2 ^ 63 \<longrightarrow>
        sint ((page - 1) * perPage) = (sint page - 1) * sint perPage)"
  using assms sint_offset_exact [of page perPage]
  by (auto simp: FilterQuery_def constructConditions_def limitOffset_def Let_def)

theorem FilterQuery_page_only_witness:
  "getModelInfo personCache ''t'' = Some (initFields personFields emptyInfo) \<and>
   FilterQuery asciiUpper asciiLower personCache ''SELECT * FROM t'' ''t'' None (Some []) ''t'' 10 3 =
     Inr (''SELECT * FROM t LIMIT 10 OFFSET 20'', []) \<and>
   sint ((3 - 1) * (10 :: 64 word)) = (3 - 1) * 10"
proof -
  have i10: "itoa 10 = ''10''" and i20: "itoa 20 = ''20''"
    by (simp_all add: itoa_def digits.simps)
  from FilterQuery_page_only [OF person_registered, of None "Some []" asciiUpper asciiLower
      "''SELECT * FROM t''" "''t''" 10 3] person_registered
  show ?thesis by (simp add: i10 i20)
qed

lemma filterEntries_unknown:
  "\<forall>e \<in> set es. dbTagMap info (keyField (fst e)) = None \<Longrightarrow>
   filterEntries toLower info t es st = st"
  by (induction es arbitrary: st) (auto simp: filterEntry_def Let_def split: prod.splits)

text \<open>
  C4. If no key of the filter names a field of the registered table, no condition and
  no argument is produced, \<^verbatim>\<open>FilterQuery\<close> does what it does without a filter, and
  with no sort map it returns the base query with the page clause only.
\<close>

theorem unknown_filter_fields_skipped:
  assumes "getModelInfo c table = Some info"
    and "\<forall>e \<in> set es. dbTagMap info (keyField (fst e)) = None"
  shows "constructConditions toLower c t (Some es) table = Inr ([], []) \<and>
     FilterQuery toUpper toLower c baseQuery t (Some es) sortMap table perPage page =
       FilterQuery toUpper toLower c baseQuery t None sortMap table perPage page \<and>
     FilterQuery toUpper toLower c baseQuery t (Some es) None table perPage page =
       Inr (baseQuery @ limitOffset perPage page, [])"
  using assms
  by (simp add: FilterQuery_def constructConditions_def filterEntries_unknown)

theorem unknown_filter_fields_skipped_witness:
  "getModelInfo personCache ''t'' = Some (initFields personFields emptyInfo) \<and>
   dbTagMap (initFields personFields emptyInfo) (keyField ''colour[$gt]'') = None \<and>
   dbTagMap (initFields personFields emptyInfo) (keyField ''zip'') = None \<and>
   FilterQuery asciiUpper asciiLower personCache ''SELECT * FROM t'' ''t''
     (Some [(''colour[$gt]'', VInt 3), (''zip'', VStr ''x'')]) None ''t'' 10 1 =
     Inr (''SELECT * FROM t LIMIT 10 OFFSET 0'', [])"
proof -
  have unknown: "\<forall>e \<in> set [(''colour[$gt]'', VInt 3), (''zip'', VStr ''x'')].
      dbTagMap (initFields personFields emptyInfo) (keyField (fst e)) = None"
    by code_simp
  have lim: "limitOffset 10 1 = '' LIMIT 10 OFFSET 0''"
    by (simp add: limitOffset_def itoa_def digits.simps)
  note th = unknown_filter_fields_skipped [OF person_registered unknown, of asciiLower "''t''"
      asciiUpper "''SELECT * FROM t''" None 10 1]
  from th have "FilterQuery asciiUpper asciiLower personCache ''SELECT * FROM t'' ''t''
     (Some [(''colour[$gt]'', VInt 3), (''zip'', VStr ''x'')]) None ''t'' 10 1 =
     Inr (''SELECT * FROM t'' @ limitOffset 10 1, [])"
    by blast
  moreover from unknown
  have "dbTagMap (initFields personFields emptyInfo) (keyField ''colour[$gt]'') = None"
    and "dbTagMap (initFields personFields emptyInfo) (keyField ''zip'') = None"
    by simp_all
  ultimately show ?thesis using person_registered by (simp only: lim append.simps simp_thms)
qed

lemma sortEntries_valid:
  "\<forall>e \<in> set es. toUpper (snd e) = ''ASC'' \<or> toUpper (snd e) = ''DESC'' \<Longrightarrow>
   sortEntries toUpper info t es acc =
     Inr (acc @ concat (map (\<lambda>e. case dbTagMap info (fst e) of
                                   Some dbField \<Rightarrow> [''\"'' @ t @ ''\".'' @ dbField @ '' '' @ toUpper (snd e)]
                                 | None \<Rightarrow> []) es))"
  by (induction es arbitrary: acc) (auto simp: Let_def split: option.splits)

lemma sortEntries_invalid:
  "\<exists>e \<in> set es. toUpper (snd e) \<noteq> ''ASC'' \<and> toUpper (snd e) \<noteq> ''DESC'' \<Longrightarrow>
   \<exists>e \<in> set es. toUpper (snd e) \<noteq> ''ASC'' \<and> toUpper (snd e) \<noteq> ''DESC'' \<and>
     sortEntries toUpper info t es acc = Inl (Errorf (''invalid sort order: '' @ toUpper (snd e)))"
proof (induction es arbitrary: acc)
  case Nil
  then show ?case by simp
next
  case (Cons e es)
  obtain f d where e: "e = (f, d)" by (cases e)
  show ?case
  proof (cases "toUpper d \<noteq> ''ASC'' \<and> toUpper d \<noteq> ''DESC''")
    case True
    then show ?thesis using e by (auto simp: Let_def)
  next
    case False
    with Cons.prems e have "\<exists>e \<in> set es. toUpper (snd e) \<noteq> ''ASC'' \<and> toUpper (snd e) \<noteq> ''DESC''"
      by auto
    from Cons.IH [OF this] False e show ?thesis
      by (auto simp: Let_def split: option.splits)
  qed
qed

lemma constructConditions_registered:
  "getModelInfo c table = Some info \<Longrightarrow>
   \<exists>conds args. constructConditions toLower c t filters table = Inr (conds, args)"
  by (auto simp: constructConditions_def split: option.splits prod.splits)

text \<open>
  C5. On a registered table: if some direction of the sort map is neither \<open>ASC\<close> nor
  \<open>DESC\<close> after \<^verbatim>\<open>strings.ToUpper\<close>, \<^verbatim>\<open>FilterQuery\<close> returns the error
  \<^verbatim>\<open>invalid sort order\<close> for such an entry; otherwise it succeeds, the entries with
  an unknown field are dropped, and an \<^verbatim>\<open>ORDER BY\<close> clause with column and
  upper-case direction is appended if a clause is left. The sort \<open>{name: bogus}\<close> fails,
  \<open>{name: desc}\<close> gives a clause ending in \<open>DESC\<close>.
\<close>

theorem FilterQuery_sort:
  assumes "getModelInfo c table = Some info"
  shows "((\<exists>e \<in> set es. toUpper (snd e) \<noteq> ''ASC'' \<and> toUpper (snd e) \<noteq> ''DESC'') \<longrightarrow>
       (\<exists>e \<in> set es. toUpper (snd e) \<noteq> ''ASC'' \<and> toUpper (snd e) \<noteq> ''DESC'' \<and>
          FilterQuery toUpper toLower c baseQuery t filters (Some es) table perPage page =
            Inl (Errorf (''invalid sort order: '' @ toUpper (snd e))))) \<and>
     ((\<forall>e \<in> set es. toUpper (snd e) = ''ASC'' \<or> toUpper (snd e) = ''DESC'') \<longrightarrow>
       (\<exists>conditions args.
          constructConditions toLower c t filters table = Inr (conditions, args) \<and>
          (let sortClauses =
                 concat (map (\<lambda>e. case dbTagMap info (fst e) of
                                     Some dbField \<Rightarrow> [''\"'' @ t @ ''\".'' @ dbField @ '' '' @ toUpper (snd e)]
                                   | None \<Rightarrow> []) es)
           in FilterQuery toUpper toLower c baseQuery t filters (Some es) table perPage page =
                Inr (baseQuery @
                     (if conditions = [] then [] else '' WHERE '' @ Join conditions '' AND '') @
                     (if sortClauses = [] then [] else '' ORDER BY '' @ Join sortClauses '', '') @
                     limitOffset perPage page, args)))) \<and>
     FilterQuery asciiUpper asciiLower personCache ''SELECT * FROM t'' ''t'' None
       (Some [(''name'', ''bogus'')]) ''t'' 10 1 = Inl (Errorf ''invalid sort order: BOGUS'') \<and>
     FilterQuery asciiUpper asciiLower personCache ''SELECT * FROM t'' ''t'' None
       (Some [(''name'', ''desc'')]) ''t'' 10 1 =
       Inr (''SELECT * FROM t ORDER BY \"t\".name DESC LIMIT 10 OFFSET 0'', [])"
proof -
  obtain conditions args where cc: "constructConditions toLower c t filters table = Inr (conditions, args)"
    using constructConditions_registered [OF assms] by blast
  have bad: "(\<exists>e \<in> set es. toUpper (snd e) \<noteq> ''ASC'' \<and> toUpper (snd e) \<noteq> ''DESC'') \<longrightarrow>
       (\<exists>e \<in> set es. toUpper (snd e) \<noteq> ''ASC'' \<and> toUpper (snd e) \<noteq> ''DESC'' \<and>
          FilterQuery toUpper toLower c baseQuery t filters (Some es) table perPage page =
            Inl (Errorf (''invalid sort order: '' @ toUpper (snd e))))"
  proof
    assume ex: "\<exists>e \<in> set es. toUpper (snd e) \<noteq> ''ASC'' \<and> toUpper (snd e) \<noteq> ''DESC''"
    then have ne: "es \<noteq> []" by auto
    from sortEntries_invalid [OF ex, of info t "[]"]
    obtain e where e: "e \<in> set es" "toUpper (snd e) \<noteq> ''ASC''" "toUpper (snd e) \<noteq> ''DESC''"
      "sortEntries toUpper info t es [] = Inl (Errorf (''invalid sort order: '' @ toUpper (snd e)))"
      by blast
    have "FilterQuery toUpper toLower c baseQuery t filters (Some es) table perPage page =
            Inl (Errorf (''invalid sort order: '' @ toUpper (snd e)))"
      using cc assms ne e(4) by (simp add: FilterQuery_def Let_def)
    with e show "\<exists>e \<in> set es. toUpper (snd e) \<noteq> ''ASC'' \<and> toUpper (snd e) \<noteq> ''DESC'' \<and>
          FilterQuery toUpper toLower c baseQuery t filters (Some es) table perPage page =
            Inl (Errorf (''invalid sort order: '' @ toUpper (snd e)))"
      by blast
  qed
  have good: "(\<forall>e \<in> set es. toUpper (snd e) = ''ASC'' \<or> toUpper (snd e) = ''DESC'') \<longrightarrow>
       (\<exists>conditions args.
          constructConditions toLower c t filters table = Inr (conditions, args) \<and>
          (let sortClauses =
                 concat (map (\<lambda>e. case dbTagMap info (fst e) of
                                     Some dbField \<Rightarrow> [''\"'' @ t @ ''\".'' @ dbField @ '' '' @ toUpper (snd e)]
                                   | None \<Rightarrow> []) es)
           in FilterQuery toUpper toLower c baseQuery t filters (Some es) table perPage page =
                Inr (baseQuery @
                     (if conditions = [] then [] else '' WHERE '' @ Join conditions '' AND '') @
                     (if sortClauses = [] then [] else '' ORDER BY '' @ Join sortClauses '', '') @
                     limitOffset perPage page, args)))"
  proof
    assume ok: "\<forall>e \<in> set es. toUpper (snd e) = ''ASC'' \<or> toUpper (snd e) = ''DESC''"
    have "FilterQuery toUpper toLower c baseQuery t filters (Some es) table perPage page =
        Inr (baseQuery @
             (if conditions = [] then [] else '' WHERE '' @ Join conditions '' AND '') @
             (if concat (map (\<lambda>e. case dbTagMap info (fst e) of
                                     Some dbField \<Rightarrow> [''\"'' @ t @ ''\".'' @ dbField @ '' '' @ toUpper (snd e)]
                                   | None \<Rightarrow> []) es) = [] then []
              else '' ORDER BY '' @ Join (concat (map (\<lambda>e. case dbTagMap info (fst e) of
                                     Some dbField \<Rightarrow> [''\"'' @ t @ ''\".'' @ dbField @ '' '' @ toUpper (snd e)]
                                   | None \<Rightarrow> []) es)) '', '') @
             limitOffset perPage page, args)"
      using cc assms sortEntries_valid [OF ok, of info t "[]"]
      by (cases es) (simp_all add: FilterQuery_def Let_def)
    with cc show "\<exists>conditions args.
          constructConditions toLower c t filters table = Inr (conditions, args) \<and>
          (let sortClauses =
                 concat (map (\<lambda>e. case dbTagMap info (fst e) of
                                     Some dbField \<Rightarrow> [''\"'' @ t @ ''\".'' @ dbField @ '' '' @ toUpper (snd e)]
                                   | None \<Rightarrow> []) es)
           in FilterQuery toUpper toLower c baseQuery t filters (Some es) table perPage page =
                Inr (baseQuery @
                     (if conditions = [] then [] else '' WHERE '' @ Join conditions '' AND '') @
                     (if sortClauses = [] then [] else '' ORDER BY '' @ Join sortClauses '', '') @
                     limitOffset perPage page, args))"
      unfolding Let_def by blast
  qed
  have tag: "dbTagMap (initFields personFields emptyInfo) ''name'' = Some ''name''"
    by code_simp
  have lim: "limitOffset 10 1 = '' LIMIT 10 OFFSET 0''"
    by (simp add: limitOffset_def itoa_def digits.simps)
  have up1: "asciiUpper ''bogus'' = ''BOGUS''" and up2: "asciiUpper ''desc'' = ''DESC''"
    by (simp_all add: asciiUpper_def upperByte_def)
  have ex1: "FilterQuery asciiUpper asciiLower personCache ''SELECT * FROM t'' ''t'' None
       (Some [(''name'', ''bogus'')]) ''t'' 10 1 = Inl (Errorf ''invalid sort order: BOGUS'')"
    using person_registered by (simp add: FilterQuery_def constructConditions_def up1)
  have ex2: "FilterQuery asciiUpper asciiLower personCache ''SELECT * FROM t'' ''t'' None
       (Some [(''name'', ''desc'')]) ''t'' 10 1 =
       Inr (''SELECT * FROM t ORDER BY \"t\".name DESC LIMIT 10 OFFSET 0'', [])"
    using person_registered by (simp add: FilterQuery_def constructConditions_def up2 tag lim)
  from bad good ex1 ex2 show ?thesis by blast
qed

theorem FilterQuery_sort_witness:
  "getModelInfo personCache ''t'' = Some (initFields personFields emptyInfo) \<and>
   asciiUpper ''desc'' = ''DESC'' \<and> asciiUpper ''Asc'' = ''ASC'' \<and>
   FilterQuery asciiUpper asciiLower personCache ''SELECT * FROM t'' ''t'' None
     (Some [(''name'', ''desc''), (''zip'', ''Asc'')]) ''t'' 10 1 =
     Inr (''SELECT * FROM t ORDER BY \"t\".name DESC LIMIT 10 OFFSET 0'', [])"
proof -
  have valid: "\<forall>e \<in> set [(''name'', ''desc''), (''zip'', ''Asc'')].
      asciiUpper (snd e) = ''ASC'' \<or> asciiUpper (snd e) = ''DESC''"
    by (simp add: asciiUpper_def upperByte_def)
  have up: "asciiUpper ''desc'' = ''DESC''" "asciiUpper ''Asc'' = ''ASC''"
    by (simp_all add: asciiUpper_def upperByte_def)
  have tag: "dbTagMap (initFields personFields emptyInfo) ''name'' = Some ''name''"
    "dbTagMap (initFields personFields emptyInfo) ''zip'' = None"
    by code_simp+
  have lim: "limitOffset 10 1 = '' LIMIT 10 OFFSET 0''"
    by (simp add: limitOffset_def itoa_def digits.simps)
  have cc: "constructConditions asciiLower personCache ''t'' None ''t'' = Inr ([], [])"
    using person_registered by (simp add: constructConditions_def)
  note th = FilterQuery_sort [OF person_registered, where toUpper = asciiUpper
      and es = "[(''name'', ''desc''), (''zip'', ''Asc'')]" and toLower = asciiLower
      and t = "''t''" and filters = None and baseQuery = "''SELECT * FROM t''"
      and perPage = 10 and page = 1, unfolded Let_def]
  from th valid obtain conditions args where
    c1: "constructConditions asciiLower personCache ''t'' None ''t'' = Inr (conditions, args)" and
    fq: "FilterQuery asciiUpper asciiLower personCache ''SELECT * FROM t'' ''t'' None
       (Some [(''name'', ''desc''), (''zip'', ''Asc'')]) ''t'' 10 1 =
       Inr (''SELECT * FROM t'' @
            (if conditions = [] then [] else '' WHERE '' @ Join conditions '' AND '') @
            (if concat (map (\<lambda>e. case dbTagMap (initFields personFields emptyInfo) (fst e) of
                                   Some dbField \<Rightarrow> [''\"'' @ ''t'' @ ''\".'' @ dbField @ '' '' @ asciiUpper (snd e)]
                                 | None \<Rightarrow> []) [(''name'', ''desc''), (''zip'', ''Asc'')]) = [] then []
             else '' ORDER BY '' @ Join (concat (map (\<lambda>e. case dbTagMap (initFields personFields emptyInfo) (fst e) of
                                   Some dbField \<Rightarrow> [''\"'' @ ''t'' @ ''\".'' @ dbField @ '' '' @ asciiUpper (snd e)]
                                 | None \<Rightarrow> []) [(''name'', ''desc''), (''zip'', ''Asc'')])) '', '') @
            limitOffset 10 1, args)"
    by blast
  from c1 cc have "conditions = []" "args = []" by simp_all
  with fq have "FilterQuery asciiUpper asciiLower personCache ''SELECT * FROM t'' ''t'' None
     (Some [(''name'', ''desc''), (''zip'', ''Asc'')]) ''t'' 10 1 =
     Inr (''SELECT * FROM t ORDER BY \"t\".name DESC LIMIT 10 OFFSET 0'', [])"
    by (simp add: tag up lim)
  with person_registered up show ?thesis by blast
qed

lemma doPrintf_plain_char: "c \<noteq> CHR ''%'' \<Longrightarrow> doPrintf (c # s) a = c # doPrintf s a"
  by (cases s; cases a) simp_all

lemma doPrintf_plain: "CHR ''%'' \<notin> set pre \<Longrightarrow> doPrintf (pre @ s) a = pre @ doPrintf s a"
proof (induction pre)
  case Nil
  then show ?case by simp
next
  case (Cons c pre)
  then have "c \<noteq> CHR ''%''" by auto
  then have "doPrintf (c # pre @ s) a = c # doPrintf (pre @ s) a" by (rule doPrintf_plain_char)
  with Cons show ?case by simp
qed

lemma Sprintf_plain: "CHR ''%'' \<notin> set pre \<Longrightarrow> Sprintf (pre @ s) n = pre @ Sprintf s n"
  by (simp add: Sprintf_def doPrintf_plain)

lemma Sprintf_getConditionString:
  "Sprintf (getConditionString operator) n =
     (if operator \<in> {''$prefix'', ''$suffix'', ''$like'', euro @ ''prefix'', euro @ ''suffix'', euro @ ''like''}
      then ''LIKE $'' @ itoa n
      else if operator = ''$gt'' then ''> $'' @ itoa n
      else if operator = ''$gte'' then ''>= $'' @ itoa n
      else if operator = ''$lt'' then ''< $'' @ itoa n
      else if operator = ''$lte'' then ''<= $'' @ itoa n
      else if operator = ''$ne'' then ''!= $'' @ itoa n
      else if operator = ''$in'' then ''= ANY($'' @ itoa n @ '')''
      else if operator = ''$nin'' then ''!= ALL($'' @ itoa n @ '')''
      else ''= $'' @ itoa n)"
  by (simp add: Sprintf_def getConditionString_def)

lemma filterEntry_known:
  assumes "CHR ''%'' \<notin> set t" and "dbTagMap info (keyField k) = Some col" and "CHR ''%'' \<notin> set col"
  shows "filterEntry toLower info t (k, v) (conds, args, n) =
     (conds @ [conditionText t col (keyOperator k) n],
      args @ [boundValue toLower (keyOperator k) v], n + 1)"
proof -
  have p1: "Sprintf (''LOWER(\"'' @ t @ ''\".'' @ col @ '') '' @ s) n =
      ''LOWER(\"'' @ t @ ''\".'' @ col @ '') '' @ Sprintf s n" for s
    using Sprintf_plain [of "''LOWER(\"'' @ t @ ''\".'' @ col @ '') ''" s n] assms(1,3) by simp
  have p2: "Sprintf (''\"'' @ t @ ''\".'' @ col @ '' '' @ s) n =
      ''\"'' @ t @ ''\".'' @ col @ '' '' @ Sprintf s n" for s
    using Sprintf_plain [of "''\"'' @ t @ ''\".'' @ col @ '' ''" s n] assms(1,3) by simp
  show ?thesis
    using assms(2) p1 p2
    by (simp add: filterEntry_def conditionText_def boundValue_def Let_def)
qed

lemma filterEntry_unknown:
  "dbTagMap info (keyField k) = None \<Longrightarrow> filterEntry toLower info t (k, v) st = st"
  by (cases st) (simp add: filterEntry_def Let_def)

lemma filterEntries_percent_free:
  assumes "CHR ''%'' \<notin> set t" and "\<forall>col \<in> ran (dbTagMap info). CHR ''%'' \<notin> set col"
  shows "filterEntries toLower info t es (conds, args, n) =
     (conds @ map (\<lambda>(i, e). conditionText t (the (dbTagMap info (keyField (fst e))))
                               (keyOperator (fst e)) (n + int i))
               (enumerate 0 (filter (\<lambda>e. dbTagMap info (keyField (fst e)) \<noteq> None) es)),
      args @ map (\<lambda>e. boundValue toLower (keyOperator (fst e)) (snd e))
               (filter (\<lambda>e. dbTagMap info (keyField (fst e)) \<noteq> None) es),
      n + int (length (filter (\<lambda>e. dbTagMap info (keyField (fst e)) \<noteq> None) es)))"
proof (induction es arbitrary: conds args n)
  case Nil
  then show ?case by simp
next
  case (Cons e es)
  obtain k v where e: "e = (k, v)" by (cases e)
  have shift: "map (\<lambda>(i, e). conditionText t (the (dbTagMap info (keyField (fst e))))
                               (keyOperator (fst e)) (n + 1 + int i)) (enumerate 0 xs) =
      map (\<lambda>(i, e). conditionText t (the (dbTagMap info (keyField (fst e))))
                               (keyOperator (fst e)) (n + int i)) (enumerate (Suc 0) xs)"
    for xs :: "(string \<times> val) list"
    by (simp add: enumerate_Suc_eq split_def add.assoc)
  show ?case
  proof (cases "dbTagMap info (keyField k)")
    case None
    then show ?thesis using Cons.IH e by (simp add: filterEntry_unknown)
  next
    case (Some col)
    then have "col \<in> ran (dbTagMap info)" by (auto simp: ran_def)
    with assms(2) have pc: "CHR ''%'' \<notin> set col" by blast
    show ?thesis
      using Cons.IH [of "conds @ [conditionText t col (keyOperator k) n]"
          "args @ [boundValue toLower (keyOperator k) v]" "n + 1"]
        filterEntry_known [OF assms(1) Some pc] Some e shift
      by simp
  qed
qed

text \<open>
  Where neither the table alias nor a column tag has a percent sign, the conditions
  are those of the known entries in processing order, numbered from 1, with one bound
  value each; \<open>Sprintf_getConditionString\<close> gives the text for each operator token.
\<close>

lemma constructConditions_percent_free:
  assumes "getModelInfo c table = Some info"
    and "CHR ''%'' \<notin> set t" and "\<forall>col \<in> ran (dbTagMap info). CHR ''%'' \<notin> set col"
  shows "constructConditions toLower c t (Some es) table =
     Inr (map (\<lambda>(i, e). conditionText t (the (dbTagMap info (keyField (fst e))))
                            (keyOperator (fst e)) (1 + int i))
            (enumerate 0 (filter (\<lambda>e. dbTagMap info (keyField (fst e)) \<noteq> None) es)),
          map (\<lambda>e. boundValue toLower (keyOperator (fst e)) (snd e))
            (filter (\<lambda>e. dbTagMap info (keyField (fst e)) \<noteq> None) es))"
  using assms(1) filterEntries_percent_free [OF assms(2,3), of toLower es "[]" "[]" 1]
  by (simp add: constructConditions_def)

lemma FilterQuery_age_example:
  "FilterQuery asciiUpper asciiLower personCache ''SELECT * FROM t'' ''t''
     (Some [(''age[$gt]'', VInt 18)]) None ''t'' 10 1 =
     Inr (''SELECT * FROM t WHERE \"t\".age > $1 LIMIT 10 OFFSET 0'', [VInt 18])"
  by code_simp

text \<open>
  C3. The condition text is used as the format of a second \<^verbatim>\<open>Sprintf\<close>, so a percent
  sign in the table alias is read as a verb: with the alias \<open>x%d\<close> the filter
  \<open>{age[$gt]: 18}\<close> gives a condition in which the alias has taken the argument number
  and the placeholder is \<^verbatim>\<open>$%!d(MISSING)\<close>, not \<open>$1\<close>.
\<close>

theorem FilterQuery_percent_in_alias:
  "FilterQuery asciiUpper asciiLower personCache ''SELECT * FROM t'' ''x%d''
     (Some [(''age[$gt]'', VInt 18)]) None ''t'' 10 1 =
     Inr (''SELECT * FROM t WHERE \"x1\".age > $%!d(MISSING) LIMIT 10 OFFSET 0'', [VInt 18])"
  by code_simp

section \<open>Insert and update statements\<close>

lemma note_registered: "getModelInfo noteCache ''t'' = Some (initFields noteFields emptyInfo)"
  by (simp add: getModelInfo_def noteCache_def)

lemma insertFields_snoc:
  "insertFields vm dv (cols @ [col]) st = insertField vm dv col (insertFields vm dv cols st)"
  by (induction cols arbitrary: st) simp_all

lemma filter_take_less:
  assumes "i < length xs" and "P (xs ! i)"
  shows "length (filter P (take i xs)) < length (filter P xs)"
proof -
  have "xs = take i xs @ xs ! i # drop (Suc i) xs"
    using assms(1) by (simp add: id_take_nth_drop)
  then have "filter P xs = filter P (take i xs) @ xs ! i # filter P (drop (Suc i) xs)"
    using assms(2) by (metis filter.simps(2) filter_append)
  then show ?thesis by simp
qed

lemma insertSlot_extend:
  assumes "i < length cols" and "length ph = length cols"
    and "length qv = length (filter (binds K vm dv) cols)"
    and "insertSlot K vm dv cols ph qv i"
  shows "insertSlot K vm dv (cols @ cs) (ph @ ps) (qv @ qs) i"
proof -
  let ?k = "length (filter (binds K vm dv) (take i cols))"
  have k: "binds K vm dv (cols ! i) \<Longrightarrow> ?k < length qv"
    using filter_take_less [of i cols "binds K vm dv"] assms(1,3) by simp
  show ?thesis
    using assms k
    by (auto simp: insertSlot_def Let_def nth_append binds_def split: option.splits if_splits)
qed

text \<open>
  The invariant of the loop of \<^verbatim>\<open>GetInsertQuery\<close>, for the set of the texts that
  \<^verbatim>\<open>isSQLFunction\<close> accepts.
\<close>

lemma insertFields_inv:
  "insertFields vm dv cols ([], [], [], 1) = (columns, ph, qv, n) \<Longrightarrow>
   columns = cols \<and> length ph = length cols \<and>
   length qv = length (filter (binds (Collect isSQLFunction) vm dv) cols) \<and> n = 1 + int (length qv) \<and>
   (\<forall>i < length cols. insertSlot (Collect isSQLFunction) vm dv cols ph qv i)"
proof (induction cols arbitrary: columns ph qv n rule: rev_induct)
  case Nil
  then show ?case by simp
next
  case (snoc col cols)
  let ?K = "Collect isSQLFunction"
  obtain cs0 ph0 qv0 n0 where st: "insertFields vm dv cols ([], [], [], 1) = (cs0, ph0, qv0, n0)"
    by (cases "insertFields vm dv cols ([], [], [], 1)") auto
  from snoc.IH [OF st] have inv: "cs0 = cols" "length ph0 = length cols"
    "length qv0 = length (filter (binds ?K vm dv) cols)" "n0 = 1 + int (length qv0)"
    "\<forall>i < length cols. insertSlot ?K vm dv cols ph0 qv0 i"
    by auto
  from snoc.prems st have step: "insertField vm dv col (cs0, ph0, qv0, n0) = (columns, ph, qv, n)"
    by (simp add: insertFields_snoc)
  then obtain p qs where new: "columns = cs0 @ [col]" "ph = ph0 @ [p]" "qv = qv0 @ qs"
    "n = n0 + int (length qs)"
    "qs = (if binds ?K vm dv col then [case vm col of Some v \<Rightarrow> v | None \<Rightarrow> VStr (the (dv col))] else [])"
    "p = (case vm col of Some v \<Rightarrow> ''$'' @ itoa n0
          | None \<Rightarrow> (case dv col of Some d \<Rightarrow> if isSQLFunction d then d else ''$'' @ itoa n0
                      | None \<Rightarrow> ''DEFAULT''))"
    by (auto simp: insertField_def binds_def split: option.splits if_splits)
  have old: "insertSlot ?K vm dv (cols @ [col]) ph qv i" if "i < length cols" for i
    using insertSlot_extend [OF that inv(2) inv(3)] inv(5) that new by simp
  have last: "insertSlot ?K vm dv (cols @ [col]) ph qv (length cols)"
    using new inv(2,3,4)
    by (auto simp: insertSlot_def Let_def nth_append binds_def add.commute split: option.splits)
  have "\<forall>i < length (cols @ [col]). insertSlot ?K vm dv (cols @ [col]) ph qv i"
    using old last by (auto simp: less_Suc_eq)
  moreover have "length qv = length (filter (binds ?K vm dv) (cols @ [col]))"
    using new(3,5) inv(3) by simp
  moreover have "n = 1 + int (length qv)"
    using new(3,4) inv(4) by simp
  moreover have "columns = cols @ [col]" and "length ph = length (cols @ [col])"
    using new(1,2) inv(1,2) by simp_all
  ultimately show ?case by blast
qed

text \<open>The texts that \<^verbatim>\<open>isSQLFunction\<close> accepts are the five keywords, in this spelling.\<close>

lemma isSQLFunction_keywords:
  "Collect isSQLFunction = {''NOW()'', ''NULL'', ''true'', ''false'', ''DEFAULT''}"
  by (auto simp: isSQLFunction_def)

lemma GetInsertQuery_note:
  "GetInsertQuery noteCache ''t'' [''id'' \<mapsto> VStr ''u1'', ''name'' \<mapsto> VStr ''n''] [] =
     Inr (''INSERT INTO \"t\" (id,name,note) VALUES ($1,$2,NULL)'', [VStr ''u1'', VStr ''n''])"
proof -
  have f: "dbFieldsInsert (initFields noteFields emptyInfo) = [''id'', ''name'', ''note'']"
    by code_simp
  have d: "dbInsertValueMap (initFields noteFields emptyInfo) ''note'' = Some ''NULL''"
    by code_simp
  have i: "itoa 1 = ''1''" "itoa 2 = ''2''" "itoa (1 + 1) = ''2''"
    by (simp_all add: itoa_def digits.simps)
  show ?thesis
    using note_registered
    by (simp add: GetInsertQuery_def GetInsertFields_def GetInsertValues_def getFieldsByMode_def
        f d i insertField_def isSQLFunction_def)
qed

lemma event_registered: "getModelInfo eventCache ''e'' = Some (initFields eventFields emptyInfo)"
  by (simp add: getModelInfo_def eventCache_def)

lemma event_columns:
  "dbFieldsInsert (initFields eventFields emptyInfo) =
     [''id'', ''created_at'', ''changed_at'', ''status'', ''active'', ''title'']"
  by code_simp

lemma event_defaults:
  "dbInsertValueMap (initFields eventFields emptyInfo) ''id'' = None"
  "dbInsertValueMap (initFields eventFields emptyInfo) ''created_at'' = Some ''NOW()''"
  "dbInsertValueMap (initFields eventFields emptyInfo) ''changed_at'' = Some ''now()''"
  "dbInsertValueMap (initFields eventFields emptyInfo) ''status'' = Some ''0); DROP TABLE t; --''"
  "dbInsertValueMap (initFields eventFields emptyInfo) ''active'' = Some ''true''"
  "dbInsertValueMap (initFields eventFields emptyInfo) ''title'' = None"
  by code_simp+

text \<open>
  A default that is not one of the five keywords is bound, also when it differs from a
  keyword in the letter case only, or is SQL text.
\<close>

lemma GetInsertQuery_event:
  "GetInsertQuery eventCache ''e'' [''id'' \<mapsto> VStr ''u1''] [] =
     Inr (''INSERT INTO \"e\" (id,created_at,changed_at,status,active,title) VALUES ($1,NOW(),$2,$3,true,DEFAULT)'',
          [VStr ''u1'', VStr ''now()'', VStr ''0); DROP TABLE t; --''])"
proof -
  have i: "itoa 1 = ''1''" "itoa 2 = ''2''" "itoa 3 = ''3''" "itoa (1 + 1) = ''2''"
    "itoa (1 + 1 + 1) = ''3''"
    by (simp_all add: itoa_def digits.simps)
  show ?thesis
    using event_registered
    by (simp add: GetInsertQuery_def GetInsertFields_def GetInsertValues_def getFieldsByMode_def
        event_columns event_defaults i insertField_def isSQLFunction_def)
qed

text \<open>
  C7. On a registered table \<^verbatim>\<open>GetInsertQuery\<close> lists the insertable columns in
  metadata order and emits one placeholder text for each: the next positional parameter
  bound to the caller's value; or the default spliced as it is, only if it is one of
  \<open>NOW()\<close>, \<open>NULL\<close>, \<open>true\<close>, \<open>false\<close>, \<open>DEFAULT\<close>; or the next positional
  parameter bound to the default text, for every other default; or \<open>DEFAULT\<close>. For the
  table \<open>id\<close>, \<open>name\<close>, \<open>note\<close> (default \<open>NULL\<close>) and the values \<open>id\<close>, \<open>name\<close>,
  two parameters are bound and \<open>NULL\<close> is spliced for \<open>note\<close>; a default that is SQL
  text but none of the five keywords is bound, not spliced.
\<close>

theorem GetInsertQuery_columns:
  assumes "getModelInfo c tableName = Some info"
  shows "(\<exists>placeholders queryValues.
       GetInsertQuery c tableName valuesMap returning =
         Inr (''INSERT INTO \"'' @ tableName @ ''\" ('' @ Join (dbFieldsInsert info) '','' @
              '') VALUES ('' @ Join placeholders '','' @ '')'' @
              (if returning \<noteq> [] then '' RETURNING \"'' @ returning @ ''\"'' else []),
              queryValues) \<and>
       length placeholders = length (dbFieldsInsert info) \<and>
       length queryValues =
         length (filter (binds {''NOW()'', ''NULL'', ''true'', ''false'', ''DEFAULT''}
                           valuesMap (dbInsertValueMap info)) (dbFieldsInsert info)) \<and>
       (\<forall>i < length (dbFieldsInsert info).
          insertSlot {''NOW()'', ''NULL'', ''true'', ''false'', ''DEFAULT''}
            valuesMap (dbInsertValueMap info) (dbFieldsInsert info) placeholders queryValues i)) \<and>
     GetInsertQuery noteCache ''t'' [''id'' \<mapsto> VStr ''u1'', ''name'' \<mapsto> VStr ''n''] [] =
       Inr (''INSERT INTO \"t\" (id,name,note) VALUES ($1,$2,NULL)'', [VStr ''u1'', VStr ''n'']) \<and>
     GetInsertQuery eventCache ''e'' [''id'' \<mapsto> VStr ''u1''] [] =
       Inr (''INSERT INTO \"e\" (id,created_at,changed_at,status,active,title) VALUES ($1,NOW(),$2,$3,true,DEFAULT)'',
            [VStr ''u1'', VStr ''now()'', VStr ''0); DROP TABLE t; --''])"
proof -
  let ?K = "{''NOW()'', ''NULL'', ''true'', ''false'', ''DEFAULT''}"
  obtain columns ph qv n where
    st: "insertFields valuesMap (dbInsertValueMap info) (dbFieldsInsert info) ([], [], [], 1) =
      (columns, ph, qv, n)"
    by (cases "insertFields valuesMap (dbInsertValueMap info) (dbFieldsInsert info) ([], [], [], 1)") auto
  from insertFields_inv [OF st, unfolded isSQLFunction_keywords]
  have inv: "columns = dbFieldsInsert info"
    "length ph = length (dbFieldsInsert info)"
    "length qv = length (filter (binds ?K valuesMap (dbInsertValueMap info)) (dbFieldsInsert info))"
    "\<forall>i < length (dbFieldsInsert info).
       insertSlot ?K valuesMap (dbInsertValueMap info) (dbFieldsInsert info) ph qv i"
    by auto
  have "GetInsertQuery c tableName valuesMap returning =
         Inr (''INSERT INTO \"'' @ tableName @ ''\" ('' @ Join (dbFieldsInsert info) '','' @
              '') VALUES ('' @ Join ph '','' @ '')'' @
              (if returning \<noteq> [] then '' RETURNING \"'' @ returning @ ''\"'' else []), qv)"
    using assms st inv(1)
    by (simp add: GetInsertQuery_def GetInsertFields_def GetInsertValues_def getFieldsByMode_def)
  with inv GetInsertQuery_note GetInsertQuery_event show ?thesis by blast
qed

theorem GetInsertQuery_columns_witness:
  "getModelInfo eventCache ''e'' = Some (initFields eventFields emptyInfo) \<and>
   (\<exists>placeholders queryValues.
      GetInsertQuery eventCache ''e'' [''id'' \<mapsto> VStr ''u1''] ''id'' =
        Inr (''INSERT INTO \"e\" (id,created_at,changed_at,status,active,title) VALUES ('' @
             Join placeholders '','' @ '') RETURNING \"id\"'', queryValues) \<and>
      length placeholders = 6 \<and> length queryValues = 3 \<and>
      placeholders ! 0 = ''$1'' \<and> queryValues ! 0 = VStr ''u1'' \<and>
      placeholders ! 1 = ''NOW()'' \<and>
      placeholders ! 2 = ''$2'' \<and> queryValues ! 1 = VStr ''now()'' \<and>
      placeholders ! 3 = ''$3'' \<and> queryValues ! 2 = VStr ''0); DROP TABLE t; --'' \<and>
      placeholders ! 4 = ''true'' \<and>
      placeholders ! 5 = ''DEFAULT'')"
proof -
  let ?K = "{''NOW()'', ''NULL'', ''true'', ''false'', ''DEFAULT''}"
  let ?vm = "[''id'' \<mapsto> VStr ''u1'']"
  let ?dv = "dbInsertValueMap (initFields eventFields emptyInfo)"
  let ?cols = "[''id'', ''created_at'', ''changed_at'', ''status'', ''active'', ''title'']"
  have b: "filter (binds ?K ?vm ?dv) ?cols = [''id'', ''changed_at'', ''status'']"
    by (simp add: binds_def event_defaults)
  have i: "itoa 1 = ''1''" "itoa 2 = ''2''" "itoa 3 = ''3''"
    by (simp_all add: itoa_def digits.simps)
  note th = GetInsertQuery_columns [OF event_registered, of ?vm "''id''", unfolded event_columns b]
  then obtain placeholders queryValues where
    q: "GetInsertQuery eventCache ''e'' ?vm ''id'' =
       Inr (''INSERT INTO \"'' @ ''e'' @ ''\" ('' @ Join ?cols '','' @
              '') VALUES ('' @ Join placeholders '','' @ '')'' @
              (if ''id'' \<noteq> [] then '' RETURNING \"'' @ ''id'' @ ''\"'' else []), queryValues)"
    and l: "length placeholders = length ?cols"
      "length queryValues = length [''id'', ''changed_at'', ''status'']"
    and slot: "\<forall>i < length ?cols. insertSlot ?K ?vm ?dv ?cols placeholders queryValues i"
    by blast
  from slot have s0: "insertSlot ?K ?vm ?dv ?cols placeholders queryValues 0"
    and s1: "insertSlot ?K ?vm ?dv ?cols placeholders queryValues 1"
    and s2: "insertSlot ?K ?vm ?dv ?cols placeholders queryValues 2"
    and s3: "insertSlot ?K ?vm ?dv ?cols placeholders queryValues 3"
    and s4: "insertSlot ?K ?vm ?dv ?cols placeholders queryValues 4"
    and s5: "insertSlot ?K ?vm ?dv ?cols placeholders queryValues 5"
    by simp_all
  have p0: "placeholders ! 0 = ''$1'' \<and> queryValues ! 0 = VStr ''u1''"
    using s0 by (simp add: insertSlot_def binds_def event_defaults i)
  have p1: "placeholders ! 1 = ''NOW()''"
    using s1 by (simp add: insertSlot_def binds_def event_defaults i)
  have p2: "placeholders ! 2 = ''$2'' \<and> queryValues ! 1 = VStr ''now()''"
    using s2 by (simp add: insertSlot_def binds_def event_defaults i numeral_2_eq_2)
  have p3: "placeholders ! 3 = ''$3'' \<and> queryValues ! 2 = VStr ''0); DROP TABLE t; --''"
    using s3 by (simp add: insertSlot_def binds_def event_defaults i numeral_2_eq_2 numeral_3_eq_3)
  have p4: "placeholders ! 4 = ''true''"
    using s4 by (simp add: insertSlot_def binds_def event_defaults i eval_nat_numeral)
  have p5: "placeholders ! 5 = ''DEFAULT''"
    using s5 by (simp add: insertSlot_def binds_def event_defaults i eval_nat_numeral)
  from q have "GetInsertQuery eventCache ''e'' ?vm ''id'' =
        Inr (''INSERT INTO \"e\" (id,created_at,changed_at,status,active,title) VALUES ('' @
             Join placeholders '','' @ '') RETURNING \"id\"'', queryValues)"
    by simp
  with l p0 p1 p2 p3 p4 p5 event_registered show ?thesis by auto
qed

lemma updateFields_spec:
  "updateFields vm cols (sc, qv, n) =
     (sc @ map (\<lambda>(i, col). col @ '' = $'' @ itoa (n + int i))
             (enumerate 0 (filter (\<lambda>col. vm col \<noteq> None) cols)),
      qv @ map (\<lambda>col. the (vm col)) (filter (\<lambda>col. vm col \<noteq> None) cols),
      n + int (length (filter (\<lambda>col. vm col \<noteq> None) cols)))"
proof (induction cols arbitrary: sc qv n)
  case Nil
  then show ?case by simp
next
  case (Cons col cols)
  have shift: "map (\<lambda>(i, col). col @ '' = $'' @ itoa (n + 1 + int i)) (enumerate 0 xs) =
      map (\<lambda>(i, col). col @ '' = $'' @ itoa (n + int i)) (enumerate (Suc 0) xs)" for xs :: "string list"
    by (simp add: enumerate_Suc_eq split_def add.assoc)
  show ?case
  proof (cases "vm col")
    case None
    then show ?thesis using Cons.IH by (simp add: updateField_def)
  next
    case (Some v)
    then show ?thesis using Cons.IH [of "sc @ [col @ '' = $'' @ itoa n]" "qv @ [v]" "n + 1"] shift
      by (simp add: updateField_def)
  qed
qed

lemma enumerate_empty: "enumerate n xs = [] \<longleftrightarrow> xs = []"
  by (cases xs) simp_all

text \<open>
  C8. On a registered table \<^verbatim>\<open>GetUpdateQuery\<close> panics when no updatable column
  is in the value map, and panics, producing no statement, when the value map lacks the
  returning column; otherwise the \<^verbatim>\<open>SET\<close> list has exactly the updatable columns
  that are in the value map, numbered from 1, and the key value is the last argument,
  bound to the placeholder of the \<^verbatim>\<open>WHERE\<close> clause.
\<close>

theorem GetUpdateQuery_spec:
  assumes "getModelInfo c tableName = Some info"
  shows "(let present = filter (\<lambda>col. valuesMap col \<noteq> None) (dbFieldsUpdate info) in
      (present = [] \<longrightarrow>
         GetUpdateQuery c tableName valuesMap returning = Inl (Panic ''No fields to update'')) \<and>
      (valuesMap returning = None \<longrightarrow> fatal (GetUpdateQuery c tableName valuesMap returning)) \<and>
      (\<forall>primaryKey. present \<noteq> [] \<and> valuesMap returning = Some primaryKey \<longrightarrow>
         GetUpdateQuery c tableName valuesMap returning =
           Inr (''UPDATE \"'' @ tableName @ ''\" SET '' @
                Join (map (\<lambda>(i, col). col @ '' = $'' @ itoa (1 + int i)) (enumerate 0 present)) '', '' @
                '' WHERE \"'' @ returning @ ''\" = $'' @ itoa (1 + int (length present)) @
                '' RETURNING \"'' @ returning @ ''\"'',
                map (\<lambda>col. the (valuesMap col)) present @ [primaryKey])))"
  using assms
  by (auto simp: GetUpdateQuery_def GetUpdateFields_def getFieldsByMode_def updateFields_spec Let_def
      enumerate_empty split: option.splits)

theorem GetUpdateQuery_spec_witness:
  "getModelInfo noteCache ''t'' = Some (initFields noteFields emptyInfo) \<and>
   GetUpdateQuery noteCache ''t'' [''id'' \<mapsto> VStr ''u1''] ''id'' = Inl (Panic ''No fields to update'') \<and>
   fatal (GetUpdateQuery noteCache ''t'' [''name'' \<mapsto> VStr ''n''] ''id'') \<and>
   GetUpdateQuery noteCache ''t'' [''id'' \<mapsto> VStr ''u1'', ''note'' \<mapsto> VStr ''x'', ''name'' \<mapsto> VStr ''n''] ''id'' =
     Inr (''UPDATE \"t\" SET name = $1, note = $2 WHERE \"id\" = $3 RETURNING \"id\"'',
          [VStr ''n'', VStr ''x'', VStr ''u1''])"
proof -
  have u: "dbFieldsUpdate (initFields noteFields emptyInfo) = [''name'', ''note'']"
    by code_simp
  have i: "itoa 1 = ''1''" "itoa 2 = ''2''" "itoa 3 = ''3''"
    by (simp_all add: itoa_def digits.simps)
  note t1 = GetUpdateQuery_spec [OF note_registered, of "[''id'' \<mapsto> VStr ''u1'']" "''id''", unfolded Let_def u]
  note t2 = GetUpdateQuery_spec [OF note_registered, of "[''name'' \<mapsto> VStr ''n'']" "''id''", unfolded Let_def u]
  note t3 = GetUpdateQuery_spec [OF note_registered,
      of "[''id'' \<mapsto> VStr ''u1'', ''note'' \<mapsto> VStr ''x'', ''name'' \<mapsto> VStr ''n'']" "''id''", unfolded Let_def u]
  have a: "GetUpdateQuery noteCache ''t'' [''id'' \<mapsto> VStr ''u1''] ''id'' = Inl (Panic ''No fields to update'')"
    using t1 by simp
  have b: "fatal (GetUpdateQuery noteCache ''t'' [''name'' \<mapsto> VStr ''n''] ''id'')"
    using t2 by simp
  have c: "GetUpdateQuery noteCache ''t'' [''id'' \<mapsto> VStr ''u1'', ''note'' \<mapsto> VStr ''x'', ''name'' \<mapsto> VStr ''n''] ''id'' =
     Inr (''UPDATE \"t\" SET name = $1, note = $2 WHERE \"id\" = $3 RETURNING \"id\"'',
          [VStr ''n'', VStr ''x'', VStr ''u1''])"
    using t3 by (simp add: i enumerate_eq_zip)
  from note_registered a b c show ?thesis by blast
qed

section \<open>The count rewriter\<close>

subsection \<open>The expressions without search\<close>



















subsection \<open>What is stripped\<close>










lemma caseVariant_Nil [simp]: "caseVariant us ls [] \<longleftrightarrow> us = [] \<or> ls = []"
  by (cases us; cases ls) (simp_all add: caseVariant_def)

lemma caseVariant_empty [simp]: "caseVariant [] ls x \<longleftrightarrow> x = []"
  by (simp add: caseVariant_def)



































text \<open>
  The third expression stops at a closing parenthesis: an \<open>ORDER BY\<close> clause that
  holds one is cut there, and the parenthesis stays.
\<close>

lemma BuildFilterCount_parenthesis:
  "BuildFilterCount ''SELECT * FROM t ORDER BY lower(x) LIMIT 10'' =
     ''SELECT COUNT(*) FROM (SELECT * FROM t)) AS count_subquery''"
  by code_simp



end
